theory Spec2Isabelle
  imports Complex_Main "HOL-Library.Sublist"
begin

section \<open>Python values and primitives used by waymo\_ap\_metric.py\<close>

text \<open>
  Exceptions of the Python source are values: every function that can raise returns
  \<open>error + 'a\<close>, with \<open>Inl\<close> the exception raised.
\<close>

datatype error =
  ZeroDivisionError | ValueError | IndexError | KeyError | AssertionError
  | InvalidArgumentError

text \<open>
  A floating point scalar as the metric op and numpy hand it around: a finite value, an
  infinity or NaN. Finite arithmetic is carried out over the reals (rounding is not
  part of the model).
\<close>

datatype pyfloat = Fin real | PosInf | NegInf | NaN

text \<open>The largest finite float32: what \<open>np.nan_to_num\<close> puts in place of an infinity.\<close>

definition float_max :: real where
  "float_max = (2 - 1 / 2 ^ 23) * 2 ^ 127"

fun nan_to_num :: "pyfloat \<Rightarrow> real" where
  "nan_to_num (Fin x) = x"
| "nan_to_num NaN = 0"
| "nan_to_num PosInf = float_max"
| "nan_to_num NegInf = - float_max"

text \<open>\<open>x / y\<close> on Python floats raises on a zero divisor.\<close>

definition py_truediv :: "real \<Rightarrow> real \<Rightarrow> error + real" where
  "py_truediv x y = (if y = 0 then Inl ZeroDivisionError else Inr (x / y))"

text \<open>\<open>range(n)\<close>: empty when \<open>n \<le> 0\<close>.\<close>

definition py_range :: "int \<Rightarrow> int list" where
  "py_range n = [0..n - 1]"

text \<open>\<open>xs[i]\<close>: a negative index counts from the end, an index out of range raises.\<close>

definition py_get :: "'a list \<Rightarrow> int \<Rightarrow> error + 'a" where
  "py_get xs i =
     (if 0 \<le> i \<and> i < int (length xs) then Inr (xs ! nat i)
      else if i < 0 \<and> - int (length xs) \<le> i then Inr (xs ! nat (int (length xs) + i))
      else Inl IndexError)"

text \<open>\<open>xs.index(x)\<close>: the first position of \<open>x\<close>, ValueError when there is none.\<close>

fun py_index :: "'a list \<Rightarrow> 'a \<Rightarrow> error + nat" where
  "py_index [] x = Inl ValueError"
| "py_index (y # ys) x =
     (if y = x then Inr 0
      else (case py_index ys x of Inl e \<Rightarrow> Inl e | Inr i \<Rightarrow> Inr (Suc i)))"

text \<open>\<open>d[k]\<close> on a dict: KeyError on a missing key.\<close>

definition dict_get :: "('k \<rightharpoonup> 'v) \<Rightarrow> 'k \<Rightarrow> error + 'v" where
  "dict_get d k = (case d k of None \<Rightarrow> Inl KeyError | Some v \<Rightarrow> Inr v)"

text \<open>A list comprehension whose element expression can raise: the first exception wins.\<close>

fun mapM_err :: "('a \<Rightarrow> error + 'b) \<Rightarrow> 'a list \<Rightarrow> error + 'b list" where
  "mapM_err f [] = Inr []"
| "mapM_err f (x # xs) =
     (case f x of
        Inl e \<Rightarrow> Inl e
      | Inr y \<Rightarrow> (case mapM_err f xs of Inl e \<Rightarrow> Inl e | Inr ys \<Rightarrow> Inr (y # ys)))"

text \<open>\<open>enumerate(xs)\<close>, counting from \<open>k\<close>.\<close>

fun enumerate_from :: "nat \<Rightarrow> 'a list \<Rightarrow> (nat \<times> 'a) list" where
  "enumerate_from k [] = []"
| "enumerate_from k (x # xs) = (k, x) # enumerate_from (Suc k) xs"

text \<open>
  \<open>s.lower()\<close> on the ASCII letters, and the substring test \<open>a in b\<close> on strings.
\<close>

definition lower_char :: "char \<Rightarrow> char" where
  "lower_char c =
     (let n = (of_char c :: nat) in if 65 \<le> n \<and> n \<le> 90 then char_of (n + 32) else c)"

definition lower :: "string \<Rightarrow> string" where
  "lower s = map lower_char s"

definition str_in :: "string \<Rightarrow> string \<Rightarrow> bool" where
  "str_in a b = sublist a b"

section \<open>The metadata collaborator and the metric config\<close>

text \<open>
  The metadata object, read through its five accessors. \<open>IoUThresholds()\<close> is a dict
  that the source iterates with \<open>.items()\<close>: an association list in insertion order.
\<close>

record Metadata =
  NumClasses :: int
  ClassNames :: "string list"
  IoUThresholds :: "(string \<times> real) list"
  NumberOfPrecisionRecallPoints :: int
  EvalClassIndices :: "int list"

text \<open>
  The protos are not under src/. Of \<open>Breakdown.GeneratorId\<close> the source names the member
  \<open>ONE_SHARD\<close>; the other members are reached through the enum's \<open>Value(name)\<close> lookup,
  which every function below takes as a parameter (\<open>None\<close>: the name is unknown and
  the lookup raises ValueError).
\<close>

datatype GeneratorId = ONE_SHARD | Generator nat

datatype MatcherType = TYPE_HUNGARIAN

datatype BoxType = TYPE_2D | TYPE_3D

record Difficulty =
  levels :: "int list"

definition Difficulty_default :: Difficulty where
  "Difficulty_default = \<lparr>levels = []\<rparr>"

record Config =
  score_cutoffs :: "real list"
  matcher_type :: MatcherType
  box_type :: BoxType
  iou_thresholds :: "real list"
  breakdown_generator_ids :: "GeneratorId list"
  difficulties :: "Difficulty list"

text \<open>
  Lines 58-60: the loop over the override dict. \<open>ClassNames().index\<close> raises ValueError
  on an unknown name; the assignment to the repeated field raises IndexError outside it.
\<close>

fun override_iou_thresholds ::
  "string list \<Rightarrow> (string \<times> real) list \<Rightarrow> real list \<Rightarrow> error + real list" where
  "override_iou_thresholds names [] ths = Inr ths"
| "override_iou_thresholds names ((class_name, threshold) # rest) ths =
     (case py_index names class_name of
        Inl e \<Rightarrow> Inl e
      | Inr cls_idx \<Rightarrow>
          if cls_idx < length ths
          then override_iou_thresholds names rest (ths[cls_idx := threshold])
          else Inl IndexError)"

text \<open>Lines 64-67: one generator id and one default difficulty per extra breakdown.\<close>

fun add_breakdowns ::
  "(string \<Rightarrow> GeneratorId option) \<Rightarrow> string list \<Rightarrow> Config \<Rightarrow> error + Config" where
  "add_breakdowns Value [] config = Inr config"
| "add_breakdowns Value (breakdown_value # rest) config =
     (case Value breakdown_value of
        None \<Rightarrow> Inl ValueError
      | Some breakdown_id \<Rightarrow>
          add_breakdowns Value rest
            (config\<lparr>breakdown_generator_ids := breakdown_generator_ids config @ [breakdown_id],
                    difficulties := difficulties config @ [Difficulty_default]\<rparr>))"

text \<open>
  \<open>_BuildWaymoMetricConfig(metadata, box_type, waymo_breakdown_metrics)\<close>, lines 44-68,
  in the order of the source: score cutoffs, matcher type, box type, IoU thresholds,
  breakdowns.
\<close>

definition BuildWaymoMetricConfig ::
  "(string \<Rightarrow> GeneratorId option) \<Rightarrow> Metadata \<Rightarrow> string \<Rightarrow> string list \<Rightarrow> error + Config" where
  "BuildWaymoMetricConfig Value md box_type_arg waymo_breakdown_metrics =
     (let num_pr_points = NumberOfPrecisionRecallPoints md in
      case mapM_err (\<lambda>i. py_truediv (real_of_int i * 1.0) (real_of_int (num_pr_points - 1)))
             (py_range num_pr_points) of
        Inl e \<Rightarrow> Inl e
      | Inr cutoffs \<Rightarrow>
          (case override_iou_thresholds (ClassNames md) (IoUThresholds md)
                  [0.7, 0.7, 0.7, 0.7, 0.7] of
             Inl e \<Rightarrow> Inl e
           | Inr ious \<Rightarrow>
               add_breakdowns Value waymo_breakdown_metrics
                 \<lparr>score_cutoffs = cutoffs,
                  matcher_type = TYPE_HUNGARIAN,
                  box_type = (if box_type_arg = ''2d'' then TYPE_2D else TYPE_3D),
                  iou_thresholds = ious,
                  breakdown_generator_ids = [ONE_SHARD],
                  difficulties = [Difficulty_default]\<rparr>))"

section \<open>The metric object and its collaborators\<close>

text \<open>
  A box is a row of floats, a precision/recall curve an array of shape \<open>[P, 2]\<close>: a
  list of rows (precision, recall).
\<close>

type_synonym Box = "real list"

type_synonym Curve = "(pyfloat \<times> pyfloat) list"

text \<open>
  \<open>_LoadBoundingBoxes(name, class_id, distance, num_points, rotation)\<close> is a method of the
  base class, not under src/: a parameter. A call is recorded with its five arguments;
  the answer is the loaded arrays, or \<open>None\<close> when no box matches. Ground truth carries
  \<open>speeds\<close>, predictions carry \<open>scores\<close>.
\<close>

datatype BoxSource = groundtruth | prediction

record LoadCall =
  load_name :: BoxSource
  load_class_id :: int
  load_distance :: "int option"
  load_num_points :: "int option"
  load_rotation :: "int option"

record BoundingBoxes =
  boxes :: "Box list"
  imgids :: "int list"
  speeds :: "real list list"
  scores :: "pyfloat list"

text \<open>The NestedMap that \<open>_GetData\<close> returns, with the two inner maps flattened.\<close>

record FeedData =
  iou_threshold :: real
  gt_imgid :: "int list"
  gt_bbox :: "Box list"
  gt_speed :: "real list list"
  pd_imgid :: "int list"
  pd_bbox :: "Box list"
  pd_score :: "pyfloat list"

text \<open>
  The metric op \<open>py_metrics_ops.detection_metrics\<close> is external: a parameter, from its
  keyword arguments to the four outputs the source reads (the fifth is dropped).
\<close>

record MatcherInput =
  prediction_bbox :: "Box list"
  prediction_type :: "int list"
  prediction_score :: "pyfloat list"
  prediction_frame_id :: "int list"
  prediction_overlap_nlz :: "bool list"
  ground_truth_bbox :: "Box list"
  ground_truth_type :: "int list"
  ground_truth_frame_id :: "int list"
  ground_truth_difficulty :: "int list"
  ground_truth_speed :: "real list list"
  config_serialized :: Config

record MatcherOutput =
  out_ap :: "pyfloat list"
  out_ap_ha :: "pyfloat list"
  out_pr :: "Curve list"
  out_pr_ha :: "Curve list"

record Externals =
  GeneratorId_Value :: "string \<Rightarrow> GeneratorId option"
  get_breakdown_names_from_config :: "Config \<Rightarrow> string list"
  LoadBoundingBoxes :: "LoadCall \<Rightarrow> BoundingBoxes option"
  detection_metrics :: "MatcherInput \<Rightarrow> MatcherOutput"

text \<open>
  \<open>WaymoBreakdownMetric\<close>: its params (\<open>metadata\<close>, \<open>breakdown_list\<close>) and the four
  aggregate dicts, keyed by breakdown name and indexed by eval-class position.
\<close>

record WaymoBreakdownMetric =
  bm_metadata :: Metadata
  breakdown_list :: "string list"
  average_precisions :: "string \<rightharpoonup> pyfloat list"
  average_precision_headings :: "string \<rightharpoonup> pyfloat list"
  precision_recall :: "string \<rightharpoonup> Curve list"
  precision_recall_headings :: "string \<rightharpoonup> Curve list"

text \<open>
  \<open>WaymoAPMetrics\<close>: \<open>iou_thresholds_by_class\<close> is \<open>self._iou_thresholds\<close>, \<open>waymo\<close> is
  \<open>self._breakdown_metrics['waymo']\<close>. The last three fields belong to the evaluation
  trigger of the base class (see \<open>EvaluateIfNecessary\<close> below): whether the aggregate
  dicts are populated, and two counters that only observe, one of evaluation passes
  started and one of metric op invocations.
\<close>

record WaymoAPMetrics =
  metadata :: Metadata
  waymo_metric_config :: Config
  iou_thresholds_by_class :: "string \<rightharpoonup> real"
  waymo :: WaymoBreakdownMetric
  populated :: bool
  evaluation_passes :: nat
  matcher_invocations :: nat

text \<open>
  \<open>WaymoAPMetrics.__init__\<close>, lines 85-98. The base constructor sets
  \<open>self._iou_thresholds\<close>; it is not under src/, so the dict is a parameter here.
\<close>

definition WaymoAPMetrics_init ::
  "Externals \<Rightarrow> Metadata \<Rightarrow> (string \<rightharpoonup> real) \<Rightarrow> string \<Rightarrow> string list \<Rightarrow> error + WaymoAPMetrics" where
  "WaymoAPMetrics_init ext md iou_by_class box_type_arg waymo_breakdown_metrics =
     (case BuildWaymoMetricConfig (GeneratorId_Value ext) md box_type_arg
             waymo_breakdown_metrics of
        Inl e \<Rightarrow> Inl e
      | Inr cfg \<Rightarrow>
          Inr \<lparr>metadata = md,
               waymo_metric_config = cfg,
               iou_thresholds_by_class = iou_by_class,
               waymo = \<lparr>bm_metadata = md,
                        breakdown_list = get_breakdown_names_from_config ext cfg,
                        average_precisions = Map.empty,
                        average_precision_headings = Map.empty,
                        precision_recall = Map.empty,
                        precision_recall_headings = Map.empty\<rparr>,
               populated = False,
               evaluation_passes = 0,
               matcher_invocations = 0\<rparr>)"

subsection \<open>\<open>_GetData\<close>, lines 100-146\<close>

text \<open>A load is a call of the loader; the log keeps the calls in the order they are made.\<close>

definition load_boxes ::
  "Externals \<Rightarrow> LoadCall \<Rightarrow> LoadCall list \<Rightarrow> BoundingBoxes option \<times> LoadCall list" where
  "load_boxes ext call calls = (LoadBoundingBoxes ext call, calls @ [call])"

definition GetData ::
  "Externals \<Rightarrow> WaymoAPMetrics \<Rightarrow> int \<Rightarrow> string option \<Rightarrow> int option \<Rightarrow> int option \<Rightarrow>
   int option \<Rightarrow> LoadCall list \<Rightarrow> (error + FeedData option) \<times> LoadCall list" where
  "GetData ext self classid difficulty distance num_points rotation calls =
     (if \<not> (classid > 0 \<and> classid < NumClasses (metadata self)) then (Inl AssertionError, calls)
      else
        let (g, calls1) = load_boxes ext
               \<lparr>load_name = groundtruth, load_class_id = classid, load_distance = distance,
                load_num_points = num_points, load_rotation = rotation\<rparr> calls;
            (p, calls2) = load_boxes ext
               \<lparr>load_name = prediction, load_class_id = classid, load_distance = distance,
                load_num_points = None, load_rotation = rotation\<rparr> calls1
        in (case g of
              None \<Rightarrow> Inr None
            | Some gv \<Rightarrow>
                (case p of
                   None \<Rightarrow> Inr None
                 | Some pv \<Rightarrow>
                     (case py_get (ClassNames (metadata self)) classid of
                        Inl e \<Rightarrow> Inl e
                      | Inr classname \<Rightarrow>
                          (case dict_get (iou_thresholds_by_class self) classname of
                             Inl e \<Rightarrow> Inl e
                           | Inr threshold \<Rightarrow>
                               Inr (Some \<lparr>iou_threshold = threshold,
                                          gt_imgid = imgids gv, gt_bbox = boxes gv,
                                          gt_speed = speeds gv,
                                          pd_imgid = imgids pv, pd_bbox = boxes pv,
                                          pd_score = scores pv\<rparr>)))),
            calls2))"

subsection \<open>\<open>_BuildMetric\<close>, lines 148-227\<close>

text \<open>
  The source builds graph tensors and a feed dict, and the session run of the base
  class evaluates them; the model returns the values the run yields. An error of the
  run (a negative dimension for \<open>tf.zeros\<close>, an index outside an output of the op) is
  an \<open>InvalidArgumentError\<close>. The class id arrays of lines 200-201 have
  \<open>dtype=tf.uint8\<close>: the op receives the class id in eight bits, \<open>classid mod 256\<close>.
\<close>

definition tf_zeros :: "int \<Rightarrow> error + Curve" where
  "tf_zeros n =
     (if n < 0 then Inl InvalidArgumentError else Inr (replicate (nat n) (Fin 0, Fin 0)))"

definition tensor_get :: "'a list \<Rightarrow> nat \<Rightarrow> error + 'a" where
  "tensor_get xs i = (if i < length xs then Inr (xs ! i) else Inl InvalidArgumentError)"

datatype FeedValue =
  FeedBoxes "Box list" | FeedInts "int list" | FeedSpeeds "real list list"
  | FeedScores "pyfloat list"

text \<open>Lines 171-175: the placeholder entries, one group of four per breakdown name.\<close>

fun dummy_metrics ::
  "pyfloat \<Rightarrow> Curve \<Rightarrow> string list \<Rightarrow> (string \<rightharpoonup> pyfloat) \<times> (string \<rightharpoonup> Curve) \<Rightarrow>
   (string \<rightharpoonup> pyfloat) \<times> (string \<rightharpoonup> Curve)" where
  "dummy_metrics dummy_scalar dummy_curve [] (scalar_metrics, curve_metrics) =
     (scalar_metrics, curve_metrics)"
| "dummy_metrics dummy_scalar dummy_curve (metric # rest) (scalar_metrics, curve_metrics) =
     dummy_metrics dummy_scalar dummy_curve rest
       (scalar_metrics(''ap_'' @ metric \<mapsto> dummy_scalar,
                       ''ap_ha_weighted_'' @ metric \<mapsto> dummy_scalar),
        curve_metrics(''pr_'' @ metric \<mapsto> dummy_curve,
                      ''pr_ha_weighted_'' @ metric \<mapsto> dummy_curve))"

text \<open>Lines 221-226: the entries read from the outputs of the op at index \<open>i\<close>.\<close>

fun op_metrics ::
  "MatcherOutput \<Rightarrow> (nat \<times> string) list \<Rightarrow> (string \<rightharpoonup> pyfloat) \<times> (string \<rightharpoonup> Curve) \<Rightarrow>
   error + (string \<rightharpoonup> pyfloat) \<times> (string \<rightharpoonup> Curve)" where
  "op_metrics out [] (scalar_metrics, curve_metrics) = Inr (scalar_metrics, curve_metrics)"
| "op_metrics out ((i, metric) # rest) (scalar_metrics, curve_metrics) =
     (case tensor_get (out_ap out) i of
        Inl e \<Rightarrow> Inl e
      | Inr ap_i \<Rightarrow>
     (case tensor_get (out_ap_ha out) i of
        Inl e \<Rightarrow> Inl e
      | Inr ap_ha_i \<Rightarrow>
     (case tensor_get (out_pr out) i of
        Inl e \<Rightarrow> Inl e
      | Inr pr_i \<Rightarrow>
     (case tensor_get (out_pr_ha out) i of
        Inl e \<Rightarrow> Inl e
      | Inr pr_ha_i \<Rightarrow>
          op_metrics out rest
            (scalar_metrics(''ap_'' @ metric \<mapsto> ap_i,
                            ''ap_ha_weighted_'' @ metric \<mapsto> ap_ha_i),
             curve_metrics(''pr_'' @ metric \<mapsto> pr_i,
                           ''pr_ha_weighted_'' @ metric \<mapsto> pr_ha_i))))))"

definition BuildMetric ::
  "Externals \<Rightarrow> WaymoAPMetrics \<Rightarrow> FeedData option \<Rightarrow> int \<Rightarrow>
   error + (string \<rightharpoonup> pyfloat) \<times> (string \<rightharpoonup> Curve) \<times> FeedValue list" where
  "BuildMetric ext self feed_data classid =
     (let breakdown_names = get_breakdown_names_from_config ext (waymo_metric_config self) in
      case feed_data of
        None \<Rightarrow>
          (case tf_zeros (NumberOfPrecisionRecallPoints (metadata self)) of
             Inl e \<Rightarrow> Inl e
           | Inr dummy_curve \<Rightarrow>
               (let dummy_scalar = NaN;
                    (scalar_metrics, curve_metrics) =
                       dummy_metrics dummy_scalar dummy_curve breakdown_names
                         ([''ap'' \<mapsto> dummy_scalar, ''ap_ha_weighted'' \<mapsto> dummy_scalar],
                          [''pr'' \<mapsto> dummy_curve, ''pr_ha_weighted'' \<mapsto> dummy_curve])
                in Inr (scalar_metrics, curve_metrics, [])))
      | Some fd \<Rightarrow>
          (let feed_dict =
                 [FeedBoxes (gt_bbox fd), FeedInts (gt_imgid fd), FeedSpeeds (gt_speed fd),
                  FeedBoxes (pd_bbox fd), FeedInts (pd_imgid fd), FeedScores (pd_score fd)];
               num_gt_bboxes = length (gt_imgid fd);
               num_pd_bboxes = length (pd_imgid fd);
               gt_class_ids = replicate num_gt_bboxes (classid mod 256);
               pd_class_ids = replicate num_pd_bboxes (classid mod 256);
               out = detection_metrics ext
                 \<lparr>prediction_bbox = pd_bbox fd,
                  prediction_type = pd_class_ids,
                  prediction_score = pd_score fd,
                  prediction_frame_id = pd_imgid fd,
                  prediction_overlap_nlz = map (\<lambda>_. False) (pd_imgid fd),
                  ground_truth_bbox = gt_bbox fd,
                  ground_truth_type = gt_class_ids,
                  ground_truth_frame_id = gt_imgid fd,
                  ground_truth_difficulty = map (\<lambda>_. 0) (gt_imgid fd),
                  ground_truth_speed = gt_speed fd,
                  config_serialized = waymo_metric_config self\<rparr>
           in
           case tensor_get (out_ap out) 0 of
             Inl e \<Rightarrow> Inl e
           | Inr ap_0 \<Rightarrow>
          (case tensor_get (out_ap_ha out) 0 of
             Inl e \<Rightarrow> Inl e
           | Inr ap_ha_0 \<Rightarrow>
          (case tensor_get (out_pr out) 0 of
             Inl e \<Rightarrow> Inl e
           | Inr pr_0 \<Rightarrow>
          (case tensor_get (out_pr_ha out) 0 of
             Inl e \<Rightarrow> Inl e
           | Inr pr_ha_0 \<Rightarrow>
          (case op_metrics out (enumerate_from 0 breakdown_names)
                  ([''ap'' \<mapsto> ap_0, ''ap_ha_weighted'' \<mapsto> ap_ha_0],
                   [''pr'' \<mapsto> pr_0, ''pr_ha_weighted'' \<mapsto> pr_ha_0]) of
             Inl e \<Rightarrow> Inl e
           | Inr (scalar_metrics, curve_metrics) \<Rightarrow>
               Inr (scalar_metrics, curve_metrics, feed_dict)))))))"

subsection \<open>The \<open>value\<close> property, lines 229-244\<close>

text \<open>
  \<open>_EvaluateIfNecessary\<close> is a method of the base class, not under src/: \<open>value\<close> and
  \<open>Summary\<close> take it as a parameter, a function from the object to the object after the
  call and the exception it raised, if any.
\<close>

type_synonym Trigger = "WaymoAPMetrics \<Rightarrow> WaymoAPMetrics \<times> error option"

fun value_loop ::
  "(string \<rightharpoonup> pyfloat list) \<Rightarrow> string list \<Rightarrow> int list \<Rightarrow> real \<times> real \<Rightarrow> error + real \<times> real" where
  "value_loop ap_map breakdown_names [] (num_sum, denom_sum) = Inr (num_sum, denom_sum)"
| "value_loop ap_map breakdown_names (class_index # rest) (num_sum, denom_sum) =
     (case py_get breakdown_names 0 of
        Inl e \<Rightarrow> Inl e
      | Inr overall \<Rightarrow>
     (case dict_get ap_map overall of
        Inl e \<Rightarrow> Inl e
      | Inr aps \<Rightarrow>
     (case py_get aps class_index of
        Inl e \<Rightarrow> Inl e
      | Inr a \<Rightarrow>
          value_loop ap_map breakdown_names rest (num_sum + nan_to_num a, denom_sum + 1))))"

definition WaymoAPMetrics_value ::
  "Externals \<Rightarrow> Trigger \<Rightarrow> WaymoAPMetrics \<Rightarrow> WaymoAPMetrics \<times> (error + real)" where
  "WaymoAPMetrics_value ext EvaluateIfNecessary_fn self =
     (case EvaluateIfNecessary_fn self of
        (self1, Some e) \<Rightarrow> (self1, Inl e)
      | (self1, None) \<Rightarrow>
          (let ap_map = average_precisions (waymo self1);
               breakdown_names =
                 get_breakdown_names_from_config ext (waymo_metric_config self1)
           in (self1,
               case value_loop ap_map breakdown_names
                      (py_range (int (length (EvalClassIndices (metadata self1))))) (0, 0) of
                 Inl e \<Rightarrow> Inl e
               | Inr (num_sum, denom_sum) \<Rightarrow> py_truediv num_sum denom_sum)))"

subsection \<open>\<open>Summary\<close>, lines 246-289, and \<open>GenerateSummaries\<close>, lines 327-372\<close>

text \<open>
  An entry of the summary: a scalar with its tag, or the plot of a curve with its tag, its
  x series (recall) and its y series (precision).
\<close>

datatype SummaryValue =
  SimpleValue string pyfloat
  | ImageValue string "pyfloat list" "pyfloat list"

text \<open>Lines 260-283: the loop over the breakdowns of one eval class.\<close>

fun Summary_breakdowns ::
  "string \<Rightarrow> string \<Rightarrow> (string \<rightharpoonup> pyfloat list) \<Rightarrow> (string \<rightharpoonup> pyfloat list) \<Rightarrow> nat \<Rightarrow>
   (nat \<times> string) list \<Rightarrow> error + SummaryValue list" where
  "Summary_breakdowns name classname ap_map aph_map i [] = Inr []"
| "Summary_breakdowns name classname ap_map aph_map i ((k, breakdown_name) # rest) =
     (if k > 0 \<and> \<not> str_in (lower classname) (lower breakdown_name)
      then Summary_breakdowns name classname ap_map aph_map i rest
      else
        (let prefix_str = (if k = 0 then name @ ''/'' @ classname else name @ ''_extra'');
             breakdown_str = (if k = 0 then ''default'' else breakdown_name)
         in
         case dict_get ap_map breakdown_name of
           Inl e \<Rightarrow> Inl e
         | Inr aps \<Rightarrow>
        (case py_get aps (int i) of
           Inl e \<Rightarrow> Inl e
         | Inr ap_value \<Rightarrow>
        (case dict_get aph_map breakdown_name of
           Inl e \<Rightarrow> Inl e
         | Inr aphs \<Rightarrow>
        (case py_get aphs (int i) of
           Inl e \<Rightarrow> Inl e
         | Inr aph_value \<Rightarrow>
        (case Summary_breakdowns name classname ap_map aph_map i rest of
           Inl e \<Rightarrow> Inl e
         | Inr others \<Rightarrow>
             Inr (SimpleValue (prefix_str @ ''/AP_'' @ breakdown_str) ap_value
                  # SimpleValue (prefix_str @ ''/APH_'' @ breakdown_str) aph_value
                  # others)))))))"

text \<open>Lines 258-259: the loop over the eval classes.\<close>

fun Summary_classes ::
  "string \<Rightarrow> string list \<Rightarrow> (string \<rightharpoonup> pyfloat list) \<Rightarrow> (string \<rightharpoonup> pyfloat list) \<Rightarrow>
   string list \<Rightarrow> (nat \<times> int) list \<Rightarrow> error + SummaryValue list" where
  "Summary_classes name class_names ap_map aph_map breakdown_names [] = Inr []"
| "Summary_classes name class_names ap_map aph_map breakdown_names ((i, j) # rest) =
     (case py_get class_names j of
        Inl e \<Rightarrow> Inl e
      | Inr classname \<Rightarrow>
     (case Summary_breakdowns name classname ap_map aph_map i
             (enumerate_from 0 breakdown_names) of
        Inl e \<Rightarrow> Inl e
      | Inr entries \<Rightarrow>
     (case Summary_classes name class_names ap_map aph_map breakdown_names rest of
        Inl e \<Rightarrow> Inl e
      | Inr others \<Rightarrow> Inr (entries @ others))))"

text \<open>
  Lines 346-370: the loop over the breakdowns of one eval class. Column 0 of the curve
  is the precision, column 1 the recall; \<open>plot.Curve\<close> is external, and the plot is kept
  as its tag and its two series.
\<close>

fun GenerateSummaries_breakdowns ::
  "string \<Rightarrow> string \<Rightarrow> (string \<rightharpoonup> Curve list) \<Rightarrow> nat \<Rightarrow> (nat \<times> string) list \<Rightarrow>
   error + SummaryValue list" where
  "GenerateSummaries_breakdowns name classname pr_map i [] = Inr []"
| "GenerateSummaries_breakdowns name classname pr_map i ((k, breakdown_str) # rest) =
     (if k > 0 \<and> \<not> str_in (lower classname) (lower breakdown_str)
      then GenerateSummaries_breakdowns name classname pr_map i rest
      else
        (case dict_get pr_map breakdown_str of
           Inl e \<Rightarrow> Inl e
         | Inr curves \<Rightarrow>
        (case py_get curves (int i) of
           Inl e \<Rightarrow> Inl e
         | Inr curve \<Rightarrow>
            (let ps = map fst curve;
                 rs = map snd curve;
                 tag_str = (if k = 0 then name @ ''/'' @ classname @ ''/PR''
                            else name @ ''/'' @ classname @ ''/'' @ breakdown_str @ ''/PR'')
             in
             case GenerateSummaries_breakdowns name classname pr_map i rest of
               Inl e \<Rightarrow> Inl e
             | Inr others \<Rightarrow> Inr (ImageValue tag_str rs ps # others)))))"

fun GenerateSummaries_classes ::
  "string \<Rightarrow> string list \<Rightarrow> (string \<rightharpoonup> Curve list) \<Rightarrow> string list \<Rightarrow> (nat \<times> int) list \<Rightarrow>
   error + SummaryValue list" where
  "GenerateSummaries_classes name class_names pr_map names [] = Inr []"
| "GenerateSummaries_classes name class_names pr_map names ((i, j) # rest) =
     (case py_get class_names j of
        Inl e \<Rightarrow> Inl e
      | Inr classname \<Rightarrow>
     (case GenerateSummaries_breakdowns name classname pr_map i (enumerate_from 0 names) of
        Inl e \<Rightarrow> Inl e
      | Inr plots \<Rightarrow>
     (case GenerateSummaries_classes name class_names pr_map names rest of
        Inl e \<Rightarrow> Inl e
      | Inr others \<Rightarrow> Inr (plots @ others))))"

definition GenerateSummaries :: "WaymoBreakdownMetric \<Rightarrow> string \<Rightarrow> error + SummaryValue list" where
  "GenerateSummaries bm name =
     GenerateSummaries_classes name (ClassNames (bm_metadata bm)) (precision_recall bm)
       (breakdown_list bm) (enumerate_from 0 (EvalClassIndices (bm_metadata bm)))"

definition Summary ::
  "Externals \<Rightarrow> Trigger \<Rightarrow> WaymoAPMetrics \<Rightarrow> string \<Rightarrow>
   WaymoAPMetrics \<times> (error + SummaryValue list)" where
  "Summary ext EvaluateIfNecessary_fn self name =
     (case EvaluateIfNecessary_fn self of
        (self1, Some e) \<Rightarrow> (self1, Inl e)
      | (self1, None) \<Rightarrow>
     (case WaymoAPMetrics_value ext EvaluateIfNecessary_fn self1 of
        (self2, Inl e) \<Rightarrow> (self2, Inl e)
      | (self2, Inr weighted) \<Rightarrow>
          (self2,
           case Summary_classes name (ClassNames (metadata self2))
                  (average_precisions (waymo self2))
                  (average_precision_headings (waymo self2))
                  (get_breakdown_names_from_config ext (waymo_metric_config self2))
                  (enumerate_from 0 (EvalClassIndices (metadata self2))) of
             Inl e \<Rightarrow> Inl e
           | Inr entries \<Rightarrow>
          (case GenerateSummaries (waymo self2) name of
             Inl e \<Rightarrow> Inl e
           | Inr image_summaries \<Rightarrow>
               Inr (SimpleValue (name @ ''/weighted_mAP'') (Fin weighted)
                    # entries @ image_summaries)))))"

subsection \<open>\<open>ComputeMetrics\<close>, lines 309-325\<close>

text \<open>
  The loop over \<open>breakdown_list\<close> fills the four dicts one after the other; an exception
  leaves the dicts as far as they were filled.
\<close>

fun ComputeMetrics_loop ::
  "(string \<rightharpoonup> pyfloat) list \<Rightarrow> (string \<rightharpoonup> Curve) list \<Rightarrow> string list \<Rightarrow>
   WaymoBreakdownMetric \<Rightarrow> WaymoBreakdownMetric \<times> error option" where
  "ComputeMetrics_loop scalars curves [] bm = (bm, None)"
| "ComputeMetrics_loop scalars curves (breakdown_str # rest) bm =
     (case mapM_err (\<lambda>s. dict_get s (''ap_'' @ breakdown_str)) scalars of
        Inl e \<Rightarrow> (bm, Some e)
      | Inr aps \<Rightarrow>
     (let bm1 = bm\<lparr>average_precisions := (average_precisions bm)(breakdown_str \<mapsto> aps)\<rparr> in
      case mapM_err (\<lambda>s. dict_get s (''ap_ha_weighted_'' @ breakdown_str)) scalars of
        Inl e \<Rightarrow> (bm1, Some e)
      | Inr aphs \<Rightarrow>
     (let bm2 = bm1\<lparr>average_precision_headings :=
                       (average_precision_headings bm1)(breakdown_str \<mapsto> aphs)\<rparr> in
      case mapM_err (\<lambda>c. dict_get c (''pr_'' @ breakdown_str)) curves of
        Inl e \<Rightarrow> (bm2, Some e)
      | Inr prs \<Rightarrow>
     (let bm3 = bm2\<lparr>precision_recall := (precision_recall bm2)(breakdown_str \<mapsto> prs)\<rparr> in
      case mapM_err (\<lambda>c. dict_get c (''pr_ha_weighted_'' @ breakdown_str)) curves of
        Inl e \<Rightarrow> (bm3, Some e)
      | Inr prhs \<Rightarrow>
          ComputeMetrics_loop scalars curves rest
            (bm3\<lparr>precision_recall_headings :=
                    (precision_recall_headings bm3)(breakdown_str \<mapsto> prhs)\<rparr>)))))"

definition ComputeMetrics ::
  "(unit \<Rightarrow> error + (string \<rightharpoonup> pyfloat) list \<times> (string \<rightharpoonup> Curve) list) \<Rightarrow>
   WaymoBreakdownMetric \<Rightarrow> WaymoBreakdownMetric \<times> error option" where
  "ComputeMetrics compute_metrics_fn bm =
     (case compute_metrics_fn () of
        Inl e \<Rightarrow> (bm, Some e)
      | Inr (scalars, curves) \<Rightarrow> ComputeMetrics_loop scalars curves (breakdown_list bm) bm)"

subsection \<open>The evaluation trigger of the base class\<close>

text \<open>
  Modelled from the spec: \<open>_ComputeFinalMetrics\<close> of the base class \<open>APMetrics\<close>, the
  per-class evaluation pass (the spec's \<open>evaluate_all_classes\<close>), is not under src/.
  By sections 2 and 4.4 of the spec it makes one evaluation per eval class, in class-index
  order: the data selector (\<open>_GetData\<close>, unfiltered), then the evaluator
  (\<open>_BuildMetric\<close>), which invokes the metric op once when there is data. The number
  threaded through counts these invocations.
\<close>

fun ComputeFinalMetrics ::
  "Externals \<Rightarrow> WaymoAPMetrics \<Rightarrow> int list \<Rightarrow> nat \<Rightarrow>
   (error + (string \<rightharpoonup> pyfloat) list \<times> (string \<rightharpoonup> Curve) list) \<times> nat" where
  "ComputeFinalMetrics ext self [] n = (Inr ([], []), n)"
| "ComputeFinalMetrics ext self (classid # rest) n =
     (case fst (GetData ext self classid None None None None []) of
        Inl e \<Rightarrow> (Inl e, n)
      | Inr data \<Rightarrow>
     (let n1 = (case data of None \<Rightarrow> n | Some fd \<Rightarrow> Suc n) in
      case BuildMetric ext self data classid of
        Inl e \<Rightarrow> (Inl e, n1)
      | Inr (scalars, curves, feed_dict) \<Rightarrow>
     (case ComputeFinalMetrics ext self rest n1 of
        (Inl e, n2) \<Rightarrow> (Inl e, n2)
      | (Inr (scalar_fetches, curve_fetches), n2) \<Rightarrow>
          (Inr (scalars # scalar_fetches, curves # curve_fetches), n2))))"

text \<open>
  Modelled from the spec: \<open>_EvaluateIfNecessary\<close> of the base class \<open>APMetrics\<close> is not
  under src/. By sections 3, 4.4 and 4.5 of the spec the aggregate dicts are populated by
  a single evaluation pass, and a trigger on an object that is already populated is a
  no-op. The pass runs \<open>ComputeMetrics\<close> of the breakdown metric on the per-class
  results; an exception leaves the object not populated.
\<close>

definition EvaluateIfNecessary :: "Externals \<Rightarrow> Trigger" where
  "EvaluateIfNecessary ext self =
     (if populated self then (self, None)
      else
        (let self1 = self\<lparr>evaluation_passes := Suc (evaluation_passes self)\<rparr>;
             (fetched, n) = ComputeFinalMetrics ext self1
                 (EvalClassIndices (metadata self1)) (matcher_invocations self1);
             self2 = self1\<lparr>matcher_invocations := n\<rparr>
         in
         case ComputeMetrics (\<lambda>u. fetched) (waymo self2) of
           (bm, Some e) \<Rightarrow> (self2\<lparr>waymo := bm\<rparr>, Some e)
         | (bm, None) \<Rightarrow> (self2\<lparr>waymo := bm, populated := True\<rparr>, None)))"

text \<open>
  A sequence of calls on one metric object: the \<open>value\<close> property and \<open>Summary(name)\<close>.
  The first exception ends the sequence, as an uncaught exception ends the program.
\<close>

datatype Call = CallValue | CallSummary string

fun run_calls :: "Externals \<Rightarrow> WaymoAPMetrics \<Rightarrow> Call list \<Rightarrow> WaymoAPMetrics \<times> error option" where
  "run_calls ext self [] = (self, None)"
| "run_calls ext self (CallValue # rest) =
     (case WaymoAPMetrics_value ext (EvaluateIfNecessary ext) self of
        (self1, Inl e) \<Rightarrow> (self1, Some e)
      | (self1, Inr v) \<Rightarrow> run_calls ext self1 rest)"
| "run_calls ext self (CallSummary name # rest) =
     (case Summary ext (EvaluateIfNecessary ext) self name of
        (self1, Inl e) \<Rightarrow> (self1, Some e)
      | (self1, Inr ret) \<Rightarrow> run_calls ext self1 rest)"

section \<open>The rendering rule in the words of the spec\<close>

text \<open>
  Section 4.5 of the spec, contract B: for an eval class, the breakdowns that are
  reported are the overall one (index 0) and those whose lowercased name contains the
  lowercased class name. Per reported breakdown the report has one AP/APH scalar pair
  and one precision/recall plot.
\<close>

definition emitted_breakdowns :: "string \<Rightarrow> string list \<Rightarrow> (nat \<times> string) list" where
  "emitted_breakdowns classname breakdown_names =
     filter (\<lambda>(k, breakdown_name). k = 0 \<or> str_in (lower classname) (lower breakdown_name))
       (enumerate_from 0 breakdown_names)"

definition spec_scalar_pair ::
  "string \<Rightarrow> (string \<rightharpoonup> pyfloat list) \<Rightarrow> (string \<rightharpoonup> pyfloat list) \<Rightarrow> nat \<Rightarrow> string \<Rightarrow>
   nat \<times> string \<Rightarrow> SummaryValue list" where
  "spec_scalar_pair name ap_map aph_map i classname kb =
     (let prefix_str = (if fst kb = 0 then name @ ''/'' @ classname else name @ ''_extra'');
          label = (if fst kb = 0 then ''default'' else snd kb)
      in [SimpleValue (prefix_str @ ''/AP_'' @ label) (the (ap_map (snd kb)) ! i),
          SimpleValue (prefix_str @ ''/APH_'' @ label) (the (aph_map (snd kb)) ! i)])"

definition spec_plot :: 
  "string \<Rightarrow> (string \<rightharpoonup> Curve list) \<Rightarrow> nat \<Rightarrow> string \<Rightarrow> nat \<times> string \<Rightarrow> SummaryValue" where
  "spec_plot name pr_map i classname kb =
     ImageValue
       (if fst kb = 0 then name @ ''/'' @ classname @ ''/PR''
        else name @ ''/'' @ classname @ ''/'' @ snd kb @ ''/PR'')
       (map snd (the (pr_map (snd kb)) ! i))
       (map fst (the (pr_map (snd kb)) ! i))"

definition spec_scalars ::
  "string \<Rightarrow> (string \<rightharpoonup> pyfloat list) \<Rightarrow> (string \<rightharpoonup> pyfloat list) \<Rightarrow> string list \<Rightarrow>
   string list \<Rightarrow> SummaryValue list" where
  "spec_scalars name ap_map aph_map breakdown_names classnames =
     concat (map (\<lambda>(i, classname).
                concat (map (spec_scalar_pair name ap_map aph_map i classname)
                          (emitted_breakdowns classname breakdown_names)))
             (enumerate_from 0 classnames))"

definition spec_plots ::
  "string \<Rightarrow> (string \<rightharpoonup> Curve list) \<Rightarrow> string list \<Rightarrow> string list \<Rightarrow> SummaryValue list" where
  "spec_plots name pr_map breakdown_names classnames =
     concat (map (\<lambda>(i, classname).
                map (spec_plot name pr_map i classname)
                  (emitted_breakdowns classname breakdown_names))
             (enumerate_from 0 classnames))"

section \<open>Concrete inputs\<close>

text \<open>
  Inputs on which the theorems below are run: an enum lookup that knows three names, a
  metadata of five classes of which three are evaluated, a metadata of six classes, the
  names of the breakdowns, a loader with boxes for class 1 and ground truth only for
  class 2, and a metric op with fixed outputs for three breakdowns.
\<close>

definition example_Value :: "string \<Rightarrow> GeneratorId option" where
  "example_Value s =
     (if s = ''ONE_SHARD'' then Some ONE_SHARD
      else if s = ''OBJECT_TYPE'' then Some (Generator 2)
      else if s = ''RANGE'' then Some (Generator 3)
      else None)"

definition example_metadata :: "int \<Rightarrow> Metadata" where
  "example_metadata P =
     \<lparr>NumClasses = 5,
      ClassNames = [''Unknown'', ''Vehicle'', ''Pedestrian'', ''Sign'', ''Cyclist''],
      IoUThresholds = [(''Vehicle'', 0.7), (''Pedestrian'', 0.5), (''Cyclist'', 0.5)],
      NumberOfPrecisionRecallPoints = P,
      EvalClassIndices = [1, 2, 4]\<rparr>"

definition six_class_metadata :: Metadata where
  "six_class_metadata =
     \<lparr>NumClasses = 6,
      ClassNames = [''Unknown'', ''Vehicle'', ''Pedestrian'', ''Sign'', ''Cyclist'', ''Bus''],
      IoUThresholds = [(''Pedestrian'', 0.5)],
      NumberOfPrecisionRecallPoints = 3,
      EvalClassIndices = [1, 2, 4, 5]\<rparr>"

definition example_config :: Config where
  "example_config =
     \<lparr>score_cutoffs = [0, 1 / 2, 1],
      matcher_type = TYPE_HUNGARIAN,
      box_type = TYPE_3D,
      iou_thresholds = [0.7, 0.7, 0.5, 0.7, 0.5],
      breakdown_generator_ids = [ONE_SHARD, Generator 3],
      difficulties = [Difficulty_default, Difficulty_default]\<rparr>"

definition example_names :: "Config \<Rightarrow> string list" where
  "example_names cfg =
     (if length (breakdown_generator_ids cfg) = 1 then [''ONE_SHARD'']
      else [''ONE_SHARD'', ''RANGE_TYPE_VEHICLE_[0, 30)'', ''RANGE_TYPE_PEDESTRIAN_[0, 30)''])"

definition example_load :: "LoadCall \<Rightarrow> BoundingBoxes option" where
  "example_load call =
     (if load_class_id call = 1 \<or> (load_class_id call = 2 \<and> load_name call = groundtruth)
      then Some \<lparr>boxes = [[0, 0, 0, 4, 2, 2, 0]], imgids = [7], speeds = [[0, 0]],
                 scores = [Fin 0.9]\<rparr>
      else None)"

text \<open>
  A loader that has no boxes for a prediction load that carries a point count filter
  (predictions have no point counts), and is \<open>example_load\<close> otherwise.
\<close>

definition strict_load :: "LoadCall \<Rightarrow> BoundingBoxes option" where
  "strict_load call =
     (if load_name call = prediction \<and> load_num_points call \<noteq> None then None
      else example_load call)"

definition example_feed :: FeedData where
  "example_feed =
     \<lparr>iou_threshold = 0.7, gt_imgid = [7], gt_bbox = [[0, 0, 0, 4, 2, 2, 0]],
      gt_speed = [[0, 0]], pd_imgid = [7], pd_bbox = [[0, 0, 0, 4, 2, 2, 0]],
      pd_score = [Fin 0.9]\<rparr>"

definition example_curve :: Curve where
  "example_curve = [(Fin 1, Fin 0), (Fin 1, Fin (1 / 2)), (Fin (1 / 2), Fin 1)]"

definition example_op :: "MatcherInput \<Rightarrow> MatcherOutput" where
  "example_op inp =
     \<lparr>out_ap = [Fin 0.8, Fin 0.9, NaN],
      out_ap_ha = [Fin 0.7, Fin 0.6, NaN],
      out_pr = [example_curve, example_curve, example_curve],
      out_pr_ha = [example_curve, example_curve, example_curve]\<rparr>"

definition example_ext :: Externals where
  "example_ext =
     \<lparr>GeneratorId_Value = example_Value,
      get_breakdown_names_from_config = example_names,
      LoadBoundingBoxes = example_load,
      detection_metrics = example_op\<rparr>"

definition strict_ext :: Externals where
  "strict_ext = example_ext\<lparr>LoadBoundingBoxes := strict_load\<rparr>"

text \<open>The object as the constructor leaves it, and an object with populated dicts.\<close>

definition example_fresh :: WaymoAPMetrics where
  "example_fresh =
     \<lparr>metadata = example_metadata 3,
      waymo_metric_config = example_config,
      iou_thresholds_by_class = map_of (IoUThresholds (example_metadata 3)),
      waymo = \<lparr>bm_metadata = example_metadata 3,
               breakdown_list = example_names example_config,
               average_precisions = Map.empty,
               average_precision_headings = Map.empty,
               precision_recall = Map.empty,
               precision_recall_headings = Map.empty\<rparr>,
      populated = False,
      evaluation_passes = 0,
      matcher_invocations = 0\<rparr>"

definition example_scalars :: "string \<rightharpoonup> pyfloat list" where
  "example_scalars =
     [''ONE_SHARD'' \<mapsto> [Fin 0.8, NaN, Fin 0.6],
      ''RANGE_TYPE_VEHICLE_[0, 30)'' \<mapsto> [Fin 0.9, NaN, NaN],
      ''RANGE_TYPE_PEDESTRIAN_[0, 30)'' \<mapsto> [NaN, Fin 0.5, NaN]]"

definition example_curves :: "string \<rightharpoonup> Curve list" where
  "example_curves =
     [''ONE_SHARD'' \<mapsto> [example_curve, example_curve, example_curve],
      ''RANGE_TYPE_VEHICLE_[0, 30)'' \<mapsto> [example_curve, example_curve, example_curve],
      ''RANGE_TYPE_PEDESTRIAN_[0, 30)'' \<mapsto> [example_curve, example_curve, example_curve]]"

definition example_populated :: WaymoAPMetrics where
  "example_populated =
     example_fresh
       \<lparr>waymo := (waymo example_fresh)
                   \<lparr>average_precisions := example_scalars,
                    average_precision_headings := example_scalars,
                    precision_recall := example_curves,
                    precision_recall_headings := example_curves\<rparr>,
        populated := True,
        evaluation_passes := 1,
        matcher_invocations := 1\<rparr>"

definition no_trigger :: Trigger where
  "no_trigger self = (self, None)"

text \<open>What \<open>Summary('eval')\<close> reports on the populated object.\<close>

definition example_report :: "SummaryValue list" where
  "example_report =
     [SimpleValue ''eval/weighted_mAP'' (Fin (7 / 15)),
      SimpleValue ''eval/Vehicle/AP_default'' (Fin (4 / 5)),
      SimpleValue ''eval/Vehicle/APH_default'' (Fin (4 / 5)),
      SimpleValue ''eval_extra/AP_RANGE_TYPE_VEHICLE_[0, 30)'' (Fin (9 / 10)),
      SimpleValue ''eval_extra/APH_RANGE_TYPE_VEHICLE_[0, 30)'' (Fin (9 / 10)),
      SimpleValue ''eval/Pedestrian/AP_default'' NaN,
      SimpleValue ''eval/Pedestrian/APH_default'' NaN,
      SimpleValue ''eval_extra/AP_RANGE_TYPE_PEDESTRIAN_[0, 30)'' (Fin (1 / 2)),
      SimpleValue ''eval_extra/APH_RANGE_TYPE_PEDESTRIAN_[0, 30)'' (Fin (1 / 2)),
      SimpleValue ''eval/Cyclist/AP_default'' (Fin (3 / 5)),
      SimpleValue ''eval/Cyclist/APH_default'' (Fin (3 / 5)),
      ImageValue ''eval/Vehicle/PR'' [Fin 0, Fin (1 / 2), Fin 1] [Fin 1, Fin 1, Fin (1 / 2)],
      ImageValue ''eval/Vehicle/RANGE_TYPE_VEHICLE_[0, 30)/PR''
        [Fin 0, Fin (1 / 2), Fin 1] [Fin 1, Fin 1, Fin (1 / 2)],
      ImageValue ''eval/Pedestrian/PR'' [Fin 0, Fin (1 / 2), Fin 1] [Fin 1, Fin 1, Fin (1 / 2)],
      ImageValue ''eval/Pedestrian/RANGE_TYPE_PEDESTRIAN_[0, 30)/PR''
        [Fin 0, Fin (1 / 2), Fin 1] [Fin 1, Fin 1, Fin (1 / 2)],
      ImageValue ''eval/Cyclist/PR'' [Fin 0, Fin (1 / 2), Fin 1] [Fin 1, Fin 1, Fin (1 / 2)]]"

section \<open>The metric config: lemmas\<close>

lemma add_breakdowns_fields:
  "add_breakdowns Value wb c = Inr c' \<Longrightarrow>
     score_cutoffs c' = score_cutoffs c \<and> matcher_type c' = matcher_type c \<and>
     box_type c' = box_type c \<and> iou_thresholds c' = iou_thresholds c \<and>
     length (breakdown_generator_ids c') = length (breakdown_generator_ids c) + length wb \<and>
     take (length (breakdown_generator_ids c)) (breakdown_generator_ids c') = breakdown_generator_ids c \<and>
     difficulties c' = difficulties c @ replicate (length wb) Difficulty_default"
proof (induction wb arbitrary: c)
  case Nil
  then show ?case by simp
next
  case (Cons w wb)
  then obtain g where g: "Value w = Some g" by (auto split: option.splits)
  let ?c1 = "c\<lparr>breakdown_generator_ids := breakdown_generator_ids c @ [g],
                difficulties := difficulties c @ [Difficulty_default]\<rparr>"
  from Cons.prems g have r: "add_breakdowns Value wb ?c1 = Inr c'" by simp
  note ih = Cons.IH [OF r]
  have "take (length (breakdown_generator_ids c)) (breakdown_generator_ids c')
        = take (length (breakdown_generator_ids c)) (take (length (breakdown_generator_ids ?c1)) (breakdown_generator_ids c'))"
    by (simp add: min_def)
  also have "\<dots> = breakdown_generator_ids c" using ih by simp
  finally show ?case using ih by (simp add: replicate_app_Cons_same)
qed

lemma add_breakdowns_box_type_indep:
  "add_breakdowns Value wb (c\<lparr>box_type := b\<rparr>) =
     (case add_breakdowns Value wb c of Inl e \<Rightarrow> Inl e | Inr c' \<Rightarrow> Inr (c'\<lparr>box_type := b\<rparr>))"
proof (induction wb arbitrary: c)
  case Nil
  then show ?case by simp
next
  case (Cons w wb)
  show ?case
  proof (cases "Value w")
    case None
    then show ?thesis by simp
  next
    case (Some g)
    let ?c1 = "c\<lparr>breakdown_generator_ids := breakdown_generator_ids c @ [g],
                  difficulties := difficulties c @ [Difficulty_default]\<rparr>"
    have "add_breakdowns Value (w # wb) (c\<lparr>box_type := b\<rparr>)
          = add_breakdowns Value wb (?c1\<lparr>box_type := b\<rparr>)"
      using Some by (cases c) simp
    also have "\<dots> = (case add_breakdowns Value wb ?c1 of
                          Inl e \<Rightarrow> Inl e | Inr c' \<Rightarrow> Inr (c'\<lparr>box_type := b\<rparr>))"
      by (rule Cons.IH)
    finally show ?thesis using Some by simp
  qed
qed

lemma mapM_err_Inr_length:
  "mapM_err f xs = Inr ys \<Longrightarrow> length ys = length xs \<and> (\<forall>i<length xs. f (xs ! i) = Inr (ys ! i))"
proof (induction xs arbitrary: ys)
  case Nil
  then show ?case by simp
next
  case (Cons x xs)
  then obtain y ys' where y: "f x = Inr y" and r: "mapM_err f xs = Inr ys'" and e: "ys = y # ys'"
    by (auto split: sum.splits)
  from Cons.IH [OF r] y e show ?case by (auto simp: nth_Cons split: nat.splits)
qed

lemma py_range_length: "length (py_range n) = nat n"
  by (simp add: py_range_def)

lemma py_range_nth: "i < nat n \<Longrightarrow> py_range n ! i = int i"
  by (simp add: py_range_def)

lemma override_length:
  "override_iou_thresholds names ovr ths = Inr ths' \<Longrightarrow> length ths' = length ths"
  by (induction names ovr ths rule: override_iou_thresholds.induct) (auto split: sum.splits if_splits)

lemma py_index_Inr: "py_index xs x = Inr i \<Longrightarrow> i < length xs \<and> xs ! i = x"
  by (induction xs arbitrary: i) (auto split: if_splits sum.splits)

lemma override_untouched:
  "override_iou_thresholds names ovr ths = Inr ths' \<Longrightarrow> i < length ths \<Longrightarrow>
   (\<forall>class_name \<in> fst ` set ovr. py_index names class_name \<noteq> Inr i) \<Longrightarrow> ths' ! i = ths ! i"
  by (induction names ovr ths rule: override_iou_thresholds.induct) (auto split: sum.splits if_splits)

lemma override_set:
  "override_iou_thresholds names ovr ths = Inr ths' \<Longrightarrow> distinct (map fst ovr) \<Longrightarrow>
   (class_name, threshold) \<in> set ovr \<Longrightarrow>
   \<exists>i<length ths. py_index names class_name = Inr i \<and> ths' ! i = threshold"
proof (induction names ovr ths rule: override_iou_thresholds.induct)
  case (1 names ths)
  then show ?case by simp
next
  case (2 names cn th rest ths)
  from "2.prems"(1) obtain k where k: "py_index names cn = Inr k" "k < length ths"
    and r: "override_iou_thresholds names rest (ths[k := th]) = Inr ths'"
    by (auto split: sum.splits if_splits)
  show ?case
  proof (cases "(class_name, threshold) = (cn, th)")
    case True
    have "\<forall>c \<in> fst ` set rest. py_index names c \<noteq> Inr k"
    proof
      fix c assume c: "c \<in> fst ` set rest"
      with "2.prems"(2) have "c \<noteq> cn" by auto
      show "py_index names c \<noteq> Inr k"
      proof
        assume "py_index names c = Inr k"
        with k(1) py_index_Inr have "c = cn" by metis
        with \<open>c \<noteq> cn\<close> show False by simp
      qed
    qed
    with override_untouched [OF r] k have "ths' ! k = th" by simp
    with True k show ?thesis by auto
  next
    case False
    with "2.prems" have "(class_name, threshold) \<in> set rest" "distinct (map fst rest)" by auto
    with "2.IH" [OF k(1) k(2) r] show ?thesis by simp
  qed
qed

lemma add_breakdowns_ids:
  "add_breakdowns Value wb c = Inr c' \<Longrightarrow>
     map Some (drop (length (breakdown_generator_ids c)) (breakdown_generator_ids c')) = map Value wb"
proof (induction wb arbitrary: c)
  case Nil
  with add_breakdowns_fields [of Value "[]" c c'] show ?case by simp
next
  case (Cons w wb)
  then obtain g where g: "Value w = Some g" by (auto split: option.splits)
  let ?c1 = "c\<lparr>breakdown_generator_ids := breakdown_generator_ids c @ [g],
                difficulties := difficulties c @ [Difficulty_default]\<rparr>"
  from Cons.prems g have r: "add_breakdowns Value wb ?c1 = Inr c'" by simp
  from add_breakdowns_fields [OF r]
  have t: "take (Suc (length (breakdown_generator_ids c))) (breakdown_generator_ids c')
           = breakdown_generator_ids c @ [g]"
    and l: "length (breakdown_generator_ids c') = Suc (length (breakdown_generator_ids c)) + length wb"
    by simp_all
  let ?n = "length (breakdown_generator_ids c)"
  have "breakdown_generator_ids c' ! ?n = (take (Suc ?n) (breakdown_generator_ids c')) ! ?n"
    by simp
  also have "\<dots> = g" unfolding t by simp
  finally have n: "breakdown_generator_ids c' ! ?n = g" .
  have "drop ?n (breakdown_generator_ids c') = g # drop (Suc ?n) (breakdown_generator_ids c')"
    using l n by (metis Cons_nth_drop_Suc add_Suc less_add_Suc1 less_Suc_eq)
  with Cons.IH [OF r] g show ?case by simp
qed

lemma build_box_type:
  "BuildWaymoMetricConfig Value md bt wb =
     (case BuildWaymoMetricConfig Value md ''3d'' wb of
        Inl e \<Rightarrow> Inl e
      | Inr c \<Rightarrow> Inr (c\<lparr>box_type := (if bt = ''2d'' then TYPE_2D else TYPE_3D)\<rparr>))"
proof (cases "bt = ''2d''")
  case True
  have h: "add_breakdowns Value wb
          \<lparr>score_cutoffs = cs, matcher_type = TYPE_HUNGARIAN, box_type = TYPE_2D,
           iou_thresholds = ious, breakdown_generator_ids = [ONE_SHARD],
           difficulties = [Difficulty_default]\<rparr> =
        (case add_breakdowns Value wb
                \<lparr>score_cutoffs = cs, matcher_type = TYPE_HUNGARIAN, box_type = TYPE_3D,
                 iou_thresholds = ious, breakdown_generator_ids = [ONE_SHARD],
                 difficulties = [Difficulty_default]\<rparr> of
           Inl e \<Rightarrow> Inl e | Inr c' \<Rightarrow> Inr (c'\<lparr>box_type := TYPE_2D\<rparr>))" for cs ious
    using add_breakdowns_box_type_indep
      [of Value wb TYPE_2D "\<lparr>score_cutoffs = cs, matcher_type = TYPE_HUNGARIAN, box_type = TYPE_3D,
                 iou_thresholds = ious, breakdown_generator_ids = [ONE_SHARD],
                 difficulties = [Difficulty_default]\<rparr>"]
    by simp
  show ?thesis
    unfolding BuildWaymoMetricConfig_def Let_def using True
    by (simp add: h split: sum.splits)
next
  case False
  then have e: "BuildWaymoMetricConfig Value md bt wb = BuildWaymoMetricConfig Value md ''3d'' wb"
    by (simp add: BuildWaymoMetricConfig_def)
  have "c\<lparr>box_type := TYPE_3D\<rparr> = c"
    if "BuildWaymoMetricConfig Value md ''3d'' wb = Inr c" for c
  proof -
    from that have "box_type c = TYPE_3D"
      by (auto simp: BuildWaymoMetricConfig_def Let_def split: sum.splits
          dest!: add_breakdowns_fields)
    then show ?thesis by (cases c) simp
  qed
  with e False show ?thesis by (simp split: sum.splits)
qed

text \<open>
  Claim C10. The config builder sets the box type to \<open>TYPE_2D\<close> exactly when the
  \<open>box_type\<close> argument is the string \<open>'2d'\<close>; every other string gives \<open>TYPE_3D\<close>, and
  the argument is never validated: whether the builder raises, and what, does not depend
  on it.
\<close>

theorem box_type_2d_only_for_exact_string:
  "(\<forall>config. BuildWaymoMetricConfig Value md bt wb = Inr config \<longrightarrow>
      box_type config = (if bt = ''2d'' then TYPE_2D else TYPE_3D)) \<and>
   (\<forall>e bt'. BuildWaymoMetricConfig Value md bt wb = Inl e \<longleftrightarrow>
      BuildWaymoMetricConfig Value md bt' wb = Inl e)"
proof -
  have a: "BuildWaymoMetricConfig Value md b wb = Inl e \<longleftrightarrow>
           BuildWaymoMetricConfig Value md ''3d'' wb = Inl e" for b e
    by (subst build_box_type) (simp split: sum.splits)
  have "box_type config = (if bt = ''2d'' then TYPE_2D else TYPE_3D)"
    if "BuildWaymoMetricConfig Value md bt wb = Inr config" for config
    using that by (subst (asm) build_box_type) (auto split: sum.splits)
  moreover have "BuildWaymoMetricConfig Value md bt wb = Inl e \<longleftrightarrow>
      BuildWaymoMetricConfig Value md bt' wb = Inl e" for e bt'
    using a [of bt e] a [of bt' e] by simp
  ultimately show ?thesis by blast
qed

lemma build_example:
  "BuildWaymoMetricConfig example_Value (example_metadata 3) bt [''RANGE''] =
     Inr \<lparr>score_cutoffs = [0, 1 / 2, 1], matcher_type = TYPE_HUNGARIAN,
          box_type = (if bt = ''2d'' then TYPE_2D else TYPE_3D),
          iou_thresholds = [0.7, 0.7, 0.5, 0.7, 0.5],
          breakdown_generator_ids = [ONE_SHARD, Generator 3],
          difficulties = [Difficulty_default, Difficulty_default]\<rparr>"
  by (simp add: BuildWaymoMetricConfig_def example_metadata_def example_Value_def py_range_def
      py_truediv_def upto.simps)

theorem box_type_2d_only_for_exact_string_witness:
  "BuildWaymoMetricConfig example_Value (example_metadata 3) ''2d'' [''RANGE'']
     = Inr (example_config\<lparr>box_type := TYPE_2D\<rparr>) \<and>
   BuildWaymoMetricConfig example_Value (example_metadata 3) ''2D'' [''RANGE''] = Inr example_config \<and>
   BuildWaymoMetricConfig example_Value (example_metadata 3) ''3d'' [''RANGE''] = Inr example_config \<and>
   BuildWaymoMetricConfig example_Value (example_metadata 3) ''box'' [''RANGE''] = Inr example_config \<and>
   box_type example_config = TYPE_3D \<and>
   BuildWaymoMetricConfig example_Value (example_metadata 3) ''2d'' [''NO_SUCH''] = Inl ValueError \<and>
   BuildWaymoMetricConfig example_Value (example_metadata 3) ''box'' [''NO_SUCH''] = Inl ValueError"
proof -
  have e: "BuildWaymoMetricConfig example_Value (example_metadata 3) ''2d'' [''NO_SUCH'']
           = Inl ValueError"
    by (simp add: BuildWaymoMetricConfig_def example_metadata_def example_Value_def py_range_def
        py_truediv_def upto.simps)
  from box_type_2d_only_for_exact_string
    [of example_Value "example_metadata 3" "''2d''" "[''NO_SUCH'']"] e
  have "BuildWaymoMetricConfig example_Value (example_metadata 3) ''box'' [''NO_SUCH'']
        = Inl ValueError"
    by blast
  with e show ?thesis
    by (simp add: build_example example_config_def)
qed


text \<open>
  Claim C6. For every list of extra breakdown names on which the builder returns a config,
  the first generator id is \<open>ONE_SHARD\<close>, the generator ids and the difficulties both
  have one more entry than there are extra names, every difficulty entry is the default
  one, and the ids after the first are the extra names resolved through the enum.
\<close>

theorem breakdown_ids_parallel_to_difficulties:
  assumes "BuildWaymoMetricConfig Value md bt wb = Inr cfg"
  shows "breakdown_generator_ids cfg ! 0 = ONE_SHARD \<and>
         length (breakdown_generator_ids cfg) = 1 + length wb \<and>
         length (difficulties cfg) = 1 + length wb \<and>
         difficulties cfg = replicate (length (breakdown_generator_ids cfg)) Difficulty_default \<and>
         map Some (tl (breakdown_generator_ids cfg)) = map Value wb"
proof -
  from assms obtain c0 where c0: "add_breakdowns Value wb c0 = Inr cfg"
    and i0: "breakdown_generator_ids c0 = [ONE_SHARD]"
    and d0: "difficulties c0 = [Difficulty_default]"
    by (auto simp: BuildWaymoMetricConfig_def Let_def split: sum.splits)
  from add_breakdowns_fields [OF c0] i0 d0
  have l: "length (breakdown_generator_ids cfg) = 1 + length wb"
    and t: "take 1 (breakdown_generator_ids cfg) = [ONE_SHARD]"
    and d: "difficulties cfg = Difficulty_default # replicate (length wb) Difficulty_default"
    by simp_all
  from t l have h: "breakdown_generator_ids cfg ! 0 = ONE_SHARD"
    by (cases "breakdown_generator_ids cfg") simp_all
  from add_breakdowns_ids [OF c0] i0
  have "map Some (tl (breakdown_generator_ids cfg)) = map Value wb"
    by (simp add: drop_Suc)
  with h l d show ?thesis by simp
qed

theorem breakdown_ids_parallel_to_difficulties_witness:
  "BuildWaymoMetricConfig example_Value (example_metadata 3) ''3d'' [''RANGE''] = Inr example_config \<and>
   breakdown_generator_ids example_config ! 0 = ONE_SHARD \<and>
   length (breakdown_generator_ids example_config) = 1 + length [''RANGE''] \<and>
   length (difficulties example_config) = 1 + length [''RANGE''] \<and>
   difficulties example_config
     = replicate (length (breakdown_generator_ids example_config)) Difficulty_default \<and>
   map Some (tl (breakdown_generator_ids example_config)) = map example_Value [''RANGE'']"
proof -
  have b: "BuildWaymoMetricConfig example_Value (example_metadata 3) ''3d'' [''RANGE'']
           = Inr example_config"
    by (simp add: build_example example_config_def)
  from breakdown_ids_parallel_to_difficulties [OF b] b show ?thesis by simp
qed


lemma cutoffs_of_build:
  assumes "BuildWaymoMetricConfig Value md bt wb = Inr cfg"
  shows "mapM_err (\<lambda>i. py_truediv (real_of_int i * 1.0)
                     (real_of_int (NumberOfPrecisionRecallPoints md - 1)))
           (py_range (NumberOfPrecisionRecallPoints md)) = Inr (score_cutoffs cfg)"
proof -
  from assms obtain cs c0 where m: "mapM_err (\<lambda>i. py_truediv (real_of_int i * 1.0)
                     (real_of_int (NumberOfPrecisionRecallPoints md - 1)))
           (py_range (NumberOfPrecisionRecallPoints md)) = Inr cs"
    and c0: "add_breakdowns Value wb c0 = Inr cfg" and s: "score_cutoffs c0 = cs"
    by (auto simp: BuildWaymoMetricConfig_def Let_def split: sum.splits)
  from add_breakdowns_fields [OF c0] s m show ?thesis by simp
qed

lemma py_index_Inl: "py_index xs x = Inl e \<Longrightarrow> e = ValueError"
  by (induction xs arbitrary: e) (auto split: if_splits sum.splits)

lemma override_Inl:
  "override_iou_thresholds names ovr ths = Inl e \<Longrightarrow> e = ValueError \<or> e = IndexError"
  by (induction names ovr ths rule: override_iou_thresholds.induct)
     (auto split: sum.splits if_splits dest: py_index_Inl)

lemma add_breakdowns_Inl: "add_breakdowns Value wb c = Inl e \<Longrightarrow> e = ValueError"
  by (induction wb arbitrary: c) (auto split: option.splits)

lemma mapM_err_all_Inr:
  "\<forall>x \<in> set xs. f x = Inr (g x) \<Longrightarrow> mapM_err f xs = Inr (map g xs)"
  by (induction xs) simp_all

lemma cutoffs_succeed:
  assumes "P \<noteq> 1"
  shows "mapM_err (\<lambda>i. py_truediv (real_of_int i * 1.0) (real_of_int (P - 1))) (py_range P)
         = Inr (map (\<lambda>i. real_of_int i / real_of_int (P - 1)) (py_range P))"
proof (rule mapM_err_all_Inr, rule ballI)
  fix i assume "i \<in> set (py_range P)"
  from assms have "real_of_int (P - 1) \<noteq> 0" by simp
  then show "py_truediv (real_of_int i * 1.0) (real_of_int (P - 1))
             = Inr (real_of_int i / real_of_int (P - 1))"
    by (simp add: py_truediv_def)
qed

lemma build_ZeroDivisionError_iff:
  "BuildWaymoMetricConfig Value md bt wb = Inl ZeroDivisionError \<longleftrightarrow>
     NumberOfPrecisionRecallPoints md = 1"
proof
  assume "NumberOfPrecisionRecallPoints md = 1"
  then show "BuildWaymoMetricConfig Value md bt wb = Inl ZeroDivisionError"
    by (simp add: BuildWaymoMetricConfig_def py_range_def py_truediv_def)
next
  assume b: "BuildWaymoMetricConfig Value md bt wb = Inl ZeroDivisionError"
  show "NumberOfPrecisionRecallPoints md = 1"
  proof (rule ccontr)
    assume "NumberOfPrecisionRecallPoints md \<noteq> 1"
    note c = cutoffs_succeed [OF this]
    from b show False
      unfolding BuildWaymoMetricConfig_def Let_def c
      by (auto split: sum.splits dest: override_Inl add_breakdowns_Inl)
  qed
qed

lemma build_without_points:
  assumes "NumberOfPrecisionRecallPoints md \<le> 0"
  shows "BuildWaymoMetricConfig Value md bt wb =
     (case override_iou_thresholds (ClassNames md) (IoUThresholds md)
             [0.7, 0.7, 0.7, 0.7, 0.7] of
        Inl e \<Rightarrow> Inl e
      | Inr ious \<Rightarrow>
          add_breakdowns Value wb
            \<lparr>score_cutoffs = [],
             matcher_type = TYPE_HUNGARIAN,
             box_type = (if bt = ''2d'' then TYPE_2D else TYPE_3D),
             iou_thresholds = ious,
             breakdown_generator_ids = [ONE_SHARD],
             difficulties = [Difficulty_default]\<rparr>)"
proof -
  from assms have "py_range (NumberOfPrecisionRecallPoints md) = []"
    by (simp add: py_range_def)
  then show ?thesis by (simp add: BuildWaymoMetricConfig_def)
qed


text \<open>
  Claim C5, amended. With \<open>P\<close> the number of precision/recall points: for \<open>P \<ge> 2\<close>
  the score cutoffs of the built config have length \<open>P\<close>, element \<open>i\<close> is \<open>i / (P - 1)\<close>,
  they are sorted ascending, the first is 0 and the last is 1. The builder raises
  ZeroDivisionError exactly when \<open>P = 1\<close>. Building with \<open>P \<le> 0\<close> does not fail on the
  cutoffs: the range is empty, no division takes place, and the build is the remaining
  steps (IoU thresholds, breakdowns) on a config whose cutoffs are the empty list.
\<close>

theorem score_cutoffs_uniform_grid:
  "(BuildWaymoMetricConfig Value md bt wb = Inl ZeroDivisionError \<longleftrightarrow>
      NumberOfPrecisionRecallPoints md = 1) \<and>
   (NumberOfPrecisionRecallPoints md \<le> 0 \<longrightarrow>
      BuildWaymoMetricConfig Value md bt wb =
        (case override_iou_thresholds (ClassNames md) (IoUThresholds md)
                [0.7, 0.7, 0.7, 0.7, 0.7] of
           Inl e \<Rightarrow> Inl e
         | Inr ious \<Rightarrow>
             add_breakdowns Value wb
               \<lparr>score_cutoffs = [],
                matcher_type = TYPE_HUNGARIAN,
                box_type = (if bt = ''2d'' then TYPE_2D else TYPE_3D),
                iou_thresholds = ious,
                breakdown_generator_ids = [ONE_SHARD],
                difficulties = [Difficulty_default]\<rparr>)) \<and>
   (\<forall>cfg. BuildWaymoMetricConfig Value md bt wb = Inr cfg \<longrightarrow>
      (2 \<le> NumberOfPrecisionRecallPoints md \<longrightarrow>
         length (score_cutoffs cfg) = nat (NumberOfPrecisionRecallPoints md) \<and>
         (\<forall>i < nat (NumberOfPrecisionRecallPoints md).
            score_cutoffs cfg ! i = real i / real_of_int (NumberOfPrecisionRecallPoints md - 1)) \<and>
         sorted (score_cutoffs cfg) \<and>
         score_cutoffs cfg ! 0 = 0 \<and>
         score_cutoffs cfg ! (nat (NumberOfPrecisionRecallPoints md) - 1) = 1) \<and>
      (NumberOfPrecisionRecallPoints md \<le> 0 \<longrightarrow> score_cutoffs cfg = []))"
proof (intro conjI allI impI)
  show "BuildWaymoMetricConfig Value md bt wb = Inl ZeroDivisionError \<longleftrightarrow>
      NumberOfPrecisionRecallPoints md = 1"
    by (rule build_ZeroDivisionError_iff)
next
  assume "NumberOfPrecisionRecallPoints md \<le> 0"
  then show "BuildWaymoMetricConfig Value md bt wb =
        (case override_iou_thresholds (ClassNames md) (IoUThresholds md)
                [0.7, 0.7, 0.7, 0.7, 0.7] of
           Inl e \<Rightarrow> Inl e
         | Inr ious \<Rightarrow>
             add_breakdowns Value wb
               \<lparr>score_cutoffs = [],
                matcher_type = TYPE_HUNGARIAN,
                box_type = (if bt = ''2d'' then TYPE_2D else TYPE_3D),
                iou_thresholds = ious,
                breakdown_generator_ids = [ONE_SHARD],
                difficulties = [Difficulty_default]\<rparr>)"
    by (rule build_without_points)
next
  fix cfg
  assume b: "BuildWaymoMetricConfig Value md bt wb = Inr cfg"
  let ?P = "NumberOfPrecisionRecallPoints md"
  note m = mapM_err_Inr_length [OF cutoffs_of_build [OF b]]
  {
    assume "?P \<le> 0"
    with m show "score_cutoffs cfg = []" by (simp add: py_range_length)
  }
  assume P: "2 \<le> ?P"
  from m show len: "length (score_cutoffs cfg) = nat ?P" by (simp add: py_range_length)
  have nth: "score_cutoffs cfg ! i = real i / real_of_int (?P - 1)" if "i < nat ?P" for i
  proof -
    from m that have "py_truediv (real_of_int (py_range ?P ! i) * 1.0) (real_of_int (?P - 1))
                      = Inr (score_cutoffs cfg ! i)"
      by (simp add: py_range_length)
    with that P show ?thesis by (simp add: py_range_nth py_truediv_def split: if_splits)
  qed
  then show "score_cutoffs cfg ! i = real i / real_of_int (?P - 1)" if "i < nat ?P" for i
    using that by simp
  show "sorted (score_cutoffs cfg)"
  proof (rule sorted_iff_nth_mono [THEN iffD2], intro allI impI)
    fix i j assume "i \<le> j" "j < length (score_cutoffs cfg)"
    with len nth [of i] nth [of j] P show "score_cutoffs cfg ! i \<le> score_cutoffs cfg ! j"
      by (simp add: divide_right_mono)
  qed
  from nth [of 0] P show "score_cutoffs cfg ! 0 = 0" by simp
  from nth [of "nat ?P - 1"] P show "score_cutoffs cfg ! (nat ?P - 1) = 1"
    by (simp add: of_nat_diff)
qed

theorem score_cutoffs_uniform_grid_witness:
  "BuildWaymoMetricConfig example_Value (example_metadata 1) ''3d'' [] = Inl ZeroDivisionError \<and>
   BuildWaymoMetricConfig example_Value (example_metadata (- 2)) ''3d'' [] =
     Inr \<lparr>score_cutoffs = [], matcher_type = TYPE_HUNGARIAN, box_type = TYPE_3D,
          iou_thresholds = [0.7, 0.7, 0.5, 0.7, 0.5],
          breakdown_generator_ids = [ONE_SHARD], difficulties = [Difficulty_default]\<rparr> \<and>
   BuildWaymoMetricConfig example_Value (example_metadata 3) ''3d'' [''RANGE''] = Inr example_config \<and>
   score_cutoffs example_config = [0, 1 / 2, 1] \<and> sorted (score_cutoffs example_config)"
proof -
  have b: "BuildWaymoMetricConfig example_Value (example_metadata 3) ''3d'' [''RANGE'']
           = Inr example_config"
    by (simp add: build_example example_config_def)
  have P: "NumberOfPrecisionRecallPoints (example_metadata 3) = 3"
          "NumberOfPrecisionRecallPoints (example_metadata 1) = 1"
          "NumberOfPrecisionRecallPoints (example_metadata (- 2)) = - 2"
    by (simp_all add: example_metadata_def)
  from score_cutoffs_uniform_grid [of example_Value "example_metadata 3" "''3d''" "[''RANGE'']"] b P
  have s: "sorted (score_cutoffs example_config)" by simp
  from score_cutoffs_uniform_grid [of example_Value "example_metadata 1" "''3d''" "[]"] P
  have z: "BuildWaymoMetricConfig example_Value (example_metadata 1) ''3d'' [] = Inl ZeroDivisionError"
    by simp
  from score_cutoffs_uniform_grid [of example_Value "example_metadata (- 2)" "''3d''" "[]"] P
  have "BuildWaymoMetricConfig example_Value (example_metadata (- 2)) ''3d'' [] =
        (case override_iou_thresholds (ClassNames (example_metadata (- 2)))
                (IoUThresholds (example_metadata (- 2))) [0.7, 0.7, 0.7, 0.7, 0.7] of
           Inl e \<Rightarrow> Inl e
         | Inr ious \<Rightarrow>
             add_breakdowns example_Value []
               \<lparr>score_cutoffs = [],
                matcher_type = TYPE_HUNGARIAN,
                box_type = (if ''3d'' = ''2d'' then TYPE_2D else TYPE_3D),
                iou_thresholds = ious,
                breakdown_generator_ids = [ONE_SHARD],
                difficulties = [Difficulty_default]\<rparr>)"
    by simp
  then have n: "BuildWaymoMetricConfig example_Value (example_metadata (- 2)) ''3d'' [] =
     Inr \<lparr>score_cutoffs = [], matcher_type = TYPE_HUNGARIAN, box_type = TYPE_3D,
          iou_thresholds = [0.7, 0.7, 0.5, 0.7, 0.5],
          breakdown_generator_ids = [ONE_SHARD], difficulties = [Difficulty_default]\<rparr>"
    by (simp add: example_metadata_def)
  from z n b s show ?thesis by (simp add: example_config_def)
qed

text \<open>
  Claim C5 as stated says that building with \<open>P < 2\<close> fails. With \<open>P = 0\<close> the builder
  returns a config.
\<close>

theorem build_with_zero_points_succeeds:
  "NumberOfPrecisionRecallPoints (example_metadata 0) < 2 \<and>
   BuildWaymoMetricConfig example_Value (example_metadata 0) ''3d'' [] =
     Inr \<lparr>score_cutoffs = [], matcher_type = TYPE_HUNGARIAN, box_type = TYPE_3D,
          iou_thresholds = [0.7, 0.7, 0.5, 0.7, 0.5],
          breakdown_generator_ids = [ONE_SHARD], difficulties = [Difficulty_default]\<rparr>"
  by (simp add: BuildWaymoMetricConfig_def example_metadata_def py_range_def)

lemma ious_of_build:
  assumes "BuildWaymoMetricConfig Value md bt wb = Inr cfg"
  shows "override_iou_thresholds (ClassNames md) (IoUThresholds md) [0.7, 0.7, 0.7, 0.7, 0.7]
           = Inr (iou_thresholds cfg)"
proof -
  from assms obtain ious c0 where
    m: "override_iou_thresholds (ClassNames md) (IoUThresholds md) [0.7, 0.7, 0.7, 0.7, 0.7]
          = Inr ious"
    and c0: "add_breakdowns Value wb c0 = Inr cfg" and s: "iou_thresholds c0 = ious"
    by (auto simp: BuildWaymoMetricConfig_def Let_def split: sum.splits)
  from add_breakdowns_fields [OF c0] s m show ?thesis by simp
qed

text \<open>
  Claim C4, amended. The built config has exactly five per-class IoU thresholds, whatever
  the number of classes of the metadata. Among these five slots, the threshold is 0.7 at
  every index that is past the class names or whose class is not named in the override
  mapping, and every class name of the override mapping resolves (by its first position
  in the class names) to one of the five slots, which holds the override value. A class
  at index 5 or above has no threshold in the config.
\<close>

theorem iou_thresholds_five_slots:
  assumes "BuildWaymoMetricConfig Value md bt wb = Inr cfg"
    and "distinct (map fst (IoUThresholds md))"
  shows "length (iou_thresholds cfg) = 5 \<and>
         (\<forall>i < 5. (length (ClassNames md) \<le> i \<or> ClassNames md ! i \<notin> fst ` set (IoUThresholds md))
            \<longrightarrow> py_get (iou_thresholds cfg) (int i) = Inr 0.7) \<and>
         (\<forall>(class_name, threshold) \<in> set (IoUThresholds md).
            \<exists>i < 5. py_index (ClassNames md) class_name = Inr i \<and>
                    py_get (iou_thresholds cfg) (int i) = Inr threshold)"
proof -
  note o = ious_of_build [OF assms(1)]
  from override_length [OF o] have len: "length (iou_thresholds cfg) = 5" by simp
  have g: "py_get (iou_thresholds cfg) (int i) = Inr (iou_thresholds cfg ! i)" if "i < 5" for i
    using that len by (simp add: py_get_def)
  have a: "py_get (iou_thresholds cfg) (int i) = Inr 0.7"
    if i: "i < 5"
      and n: "length (ClassNames md) \<le> i \<or> ClassNames md ! i \<notin> fst ` set (IoUThresholds md)"
    for i
  proof -
    have "\<forall>class_name \<in> fst ` set (IoUThresholds md). py_index (ClassNames md) class_name \<noteq> Inr i"
    proof
      fix c assume c: "c \<in> fst ` set (IoUThresholds md)"
      show "py_index (ClassNames md) c \<noteq> Inr i"
      proof
        assume "py_index (ClassNames md) c = Inr i"
        from py_index_Inr [OF this] n c show False by auto
      qed
    qed
    with override_untouched [OF o, of i] i
    have "iou_thresholds cfg ! i = [0.7, 0.7, 0.7, 0.7, 0.7 :: real] ! i" by simp
    also from i have "\<dots> = 0.7"
      by (cases i rule: nat.exhaust; simp add: nth_Cons split: nat.splits)
    finally show ?thesis using g [OF i] by simp
  qed
  have b: "\<exists>i < 5. py_index (ClassNames md) class_name = Inr i \<and>
                   py_get (iou_thresholds cfg) (int i) = Inr threshold"
    if "(class_name, threshold) \<in> set (IoUThresholds md)" for class_name threshold
  proof -
    from override_set [OF o assms(2) that]
    obtain i where "i < 5" "py_index (ClassNames md) class_name = Inr i"
      "iou_thresholds cfg ! i = threshold" by auto
    with g [of i] show ?thesis by auto
  qed
  from len a b show ?thesis by blast
qed

lemma build_six: "BuildWaymoMetricConfig example_Value six_class_metadata ''3d'' [] =
     Inr \<lparr>score_cutoffs = [0, 1 / 2, 1], matcher_type = TYPE_HUNGARIAN, box_type = TYPE_3D,
          iou_thresholds = [0.7, 0.7, 0.5, 0.7, 0.7],
          breakdown_generator_ids = [ONE_SHARD], difficulties = [Difficulty_default]\<rparr>"
  by (simp add: BuildWaymoMetricConfig_def six_class_metadata_def py_range_def
      py_truediv_def upto.simps)

theorem iou_thresholds_five_slots_witness:
  "BuildWaymoMetricConfig example_Value (example_metadata 3) ''3d'' [''RANGE''] = Inr example_config \<and>
   distinct (map fst (IoUThresholds (example_metadata 3))) \<and>
   length (iou_thresholds example_config) = 5 \<and>
   iou_thresholds example_config = [0.7, 0.7, 0.5, 0.7, 0.5]"
proof -
  have b: "BuildWaymoMetricConfig example_Value (example_metadata 3) ''3d'' [''RANGE'']
           = Inr example_config"
    by (simp add: build_example example_config_def)
  have d: "distinct (map fst (IoUThresholds (example_metadata 3)))"
    by (simp add: example_metadata_def)
  from iou_thresholds_five_slots [OF b d] b d show ?thesis
    by (simp add: example_config_def)
qed

text \<open>
  Claim C4 as stated gives every class that is not overridden the threshold 0.7,
  regardless of the number of classes. With six classes, the sixth is not overridden and
  reading its threshold from the built config is out of range.
\<close>

theorem sixth_class_has_no_threshold:
  "length (ClassNames six_class_metadata) = 6 \<and>
   ClassNames six_class_metadata ! 5 = ''Bus'' \<and>
   ''Bus'' \<notin> fst ` set (IoUThresholds six_class_metadata) \<and>
   (case BuildWaymoMetricConfig example_Value six_class_metadata ''3d'' [] of
      Inl e \<Rightarrow> False
    | Inr cfg \<Rightarrow> py_get (iou_thresholds cfg) 5 = Inl IndexError)"
  by (simp add: build_six) (simp add: six_class_metadata_def py_get_def)

section \<open>The data selector\<close>

text \<open>
  Claim C7. Every call of \<open>_GetData\<close> that passes the class id assertion performs two
  loads, in this order: the ground truth with the caller's distance, point count and
  rotation filters, and the predictions with the same distance and rotation filters and
  the point count filter omitted (\<open>None\<close>), whatever point count the caller supplied.
  The result is made of the answers to these two loads: it is \<open>None\<close> exactly when one of
  them is empty, a populated result carries the arrays of the two answers, and the call
  depends on the loader at these two argument records only. A call that fails the
  assertion performs no load.
\<close>

theorem prediction_load_omits_num_points:
  assumes "gcall = \<lparr>load_name = groundtruth, load_class_id = classid, load_distance = distance,
                     load_num_points = num_points, load_rotation = rotation\<rparr>"
    and "pcall = \<lparr>load_name = prediction, load_class_id = classid, load_distance = distance,
                   load_num_points = None, load_rotation = rotation\<rparr>"
  shows "snd (GetData ext self classid difficulty distance num_points rotation calls) =
           (if classid > 0 \<and> classid < NumClasses (metadata self)
            then calls @ [gcall, pcall] else calls) \<and>
         (\<not> (classid > 0 \<and> classid < NumClasses (metadata self)) \<longrightarrow>
            fst (GetData ext self classid difficulty distance num_points rotation calls)
              = Inl AssertionError) \<and>
         (classid > 0 \<and> classid < NumClasses (metadata self) \<longrightarrow>
            (fst (GetData ext self classid difficulty distance num_points rotation calls) = Inr None
               \<longleftrightarrow> LoadBoundingBoxes ext gcall = None \<or> LoadBoundingBoxes ext pcall = None) \<and>
            (\<forall>fd. fst (GetData ext self classid difficulty distance num_points rotation calls)
                    = Inr (Some fd) \<longrightarrow>
               (\<exists>gv pv. LoadBoundingBoxes ext gcall = Some gv \<and>
                        LoadBoundingBoxes ext pcall = Some pv \<and>
                        gt_imgid fd = imgids gv \<and> gt_bbox fd = boxes gv \<and>
                        gt_speed fd = speeds gv \<and>
                        pd_imgid fd = imgids pv \<and> pd_bbox fd = boxes pv \<and>
                        pd_score fd = scores pv))) \<and>
         (\<forall>ext'. LoadBoundingBoxes ext' gcall = LoadBoundingBoxes ext gcall \<longrightarrow>
                 LoadBoundingBoxes ext' pcall = LoadBoundingBoxes ext pcall \<longrightarrow>
                 GetData ext' self classid difficulty distance num_points rotation calls =
                 GetData ext self classid difficulty distance num_points rotation calls)"
proof -
  let ?valid = "classid > 0 \<and> classid < NumClasses (metadata self)"
  let ?run = "\<lambda>e. GetData e self classid difficulty distance num_points rotation calls"
  have form: "?run e =
      (case LoadBoundingBoxes e gcall of
         None \<Rightarrow> Inr None
       | Some gv \<Rightarrow>
           (case LoadBoundingBoxes e pcall of
              None \<Rightarrow> Inr None
            | Some pv \<Rightarrow>
                (case py_get (ClassNames (metadata self)) classid of
                   Inl e \<Rightarrow> Inl e
                 | Inr classname \<Rightarrow>
                     (case dict_get (iou_thresholds_by_class self) classname of
                        Inl e \<Rightarrow> Inl e
                      | Inr threshold \<Rightarrow>
                          Inr (Some \<lparr>iou_threshold = threshold,
                                     gt_imgid = imgids gv, gt_bbox = boxes gv,
                                     gt_speed = speeds gv,
                                     pd_imgid = imgids pv, pd_bbox = boxes pv,
                                     pd_score = scores pv\<rparr>)))),
       calls @ [gcall, pcall])"
    if ?valid for e :: Externals
    using that unfolding assms by (simp add: GetData_def load_boxes_def)
  have c1: "snd (?run ext) = (if ?valid then calls @ [gcall, pcall] else calls)"
  proof (cases ?valid)
    case True
    then show ?thesis by (simp add: form)
  next
    case False
    then show ?thesis by (simp add: GetData_def)
  qed
  have c2: "fst (?run ext) = Inl AssertionError" if "\<not> ?valid"
    using that by (simp add: GetData_def)
  have c3: "fst (?run ext) = Inr None
               \<longleftrightarrow> LoadBoundingBoxes ext gcall = None \<or> LoadBoundingBoxes ext pcall = None"
    if v: ?valid
  proof (cases "LoadBoundingBoxes ext gcall")
    case None
    then show ?thesis by (simp add: form [OF v])
  next
    case g: (Some gv)
    show ?thesis
    proof (cases "LoadBoundingBoxes ext pcall")
      case None
      with g show ?thesis by (simp add: form [OF v])
    next
      case p: (Some pv)
      show ?thesis
      proof (cases "py_get (ClassNames (metadata self)) classid")
        case (Inl e)
        with g p show ?thesis by (simp add: form [OF v])
      next
        case n: (Inr classname)
        show ?thesis
        proof (cases "dict_get (iou_thresholds_by_class self) classname")
          case (Inl e)
          with g p n show ?thesis by (simp add: form [OF v])
        next
          case (Inr threshold)
          with g p n show ?thesis by (simp add: form [OF v])
        qed
      qed
    qed
  qed
  have c4: "\<exists>gv pv. LoadBoundingBoxes ext gcall = Some gv \<and>
                        LoadBoundingBoxes ext pcall = Some pv \<and>
                        gt_imgid fd = imgids gv \<and> gt_bbox fd = boxes gv \<and>
                        gt_speed fd = speeds gv \<and>
                        pd_imgid fd = imgids pv \<and> pd_bbox fd = boxes pv \<and>
                        pd_score fd = scores pv"
    if v: ?valid and r: "fst (?run ext) = Inr (Some fd)" for fd
  proof (cases "LoadBoundingBoxes ext gcall")
    case None
    with r show ?thesis by (simp add: form [OF v])
  next
    case g: (Some gv)
    show ?thesis
    proof (cases "LoadBoundingBoxes ext pcall")
      case None
      with g r show ?thesis by (simp add: form [OF v])
    next
      case p: (Some pv)
      show ?thesis
      proof (cases "py_get (ClassNames (metadata self)) classid")
        case (Inl e)
        with g p r show ?thesis by (simp add: form [OF v])
      next
        case n: (Inr classname)
        show ?thesis
        proof (cases "dict_get (iou_thresholds_by_class self) classname")
          case (Inl e)
          with g p n r show ?thesis by (simp add: form [OF v])
        next
          case (Inr threshold)
          with g p n r have "fd = \<lparr>iou_threshold = threshold,
                                     gt_imgid = imgids gv, gt_bbox = boxes gv,
                                     gt_speed = speeds gv,
                                     pd_imgid = imgids pv, pd_bbox = boxes pv,
                                     pd_score = scores pv\<rparr>"
            by (simp add: form [OF v])
          with g p show ?thesis by simp
        qed
      qed
    qed
  qed
  have c5: "?run ext' = ?run ext"
    if "LoadBoundingBoxes ext' gcall = LoadBoundingBoxes ext gcall"
      and "LoadBoundingBoxes ext' pcall = LoadBoundingBoxes ext pcall" for ext' :: Externals
  proof (cases ?valid)
    case True
    show ?thesis by (simp only: form [OF True] that)
  next
    case False
    then show ?thesis by (simp add: GetData_def)
  qed
  from c1 c2 c3 c4 c5 show ?thesis by (intro conjI impI allI)
qed

lemma strict_GetData:
  "fst (GetData strict_ext example_fresh 1 None (Some 2) (Some 3) (Some 4) [])
     = Inr (Some example_feed)"
  by (simp add: GetData_def load_boxes_def dict_get_def strict_ext_def example_ext_def
      strict_load_def example_load_def example_fresh_def example_metadata_def py_get_def
      example_feed_def)

theorem prediction_load_omits_num_points_witness:
  "LoadBoundingBoxes strict_ext
     \<lparr>load_name = prediction, load_class_id = 1, load_distance = Some 2,
      load_num_points = Some 3, load_rotation = Some 4\<rparr> = None \<and>
   fst (GetData strict_ext example_fresh 1 None (Some 2) (Some 3) (Some 4) [])
     = Inr (Some example_feed) \<and>
   snd (GetData strict_ext example_fresh 1 None (Some 2) (Some 3) (Some 4) []) =
     [\<lparr>load_name = groundtruth, load_class_id = 1, load_distance = Some 2,
       load_num_points = Some 3, load_rotation = Some 4\<rparr>,
      \<lparr>load_name = prediction, load_class_id = 1, load_distance = Some 2,
       load_num_points = None, load_rotation = Some 4\<rparr>] \<and>
   LoadBoundingBoxes strict_ext
     \<lparr>load_name = prediction, load_class_id = 1, load_distance = Some 2,
      load_num_points = None, load_rotation = Some 4\<rparr> \<noteq> None \<and>
   fst (GetData strict_ext example_fresh 0 None (Some 2) (Some 3) (Some 4) [])
     = Inl AssertionError \<and>
   snd (GetData strict_ext example_fresh 0 None (Some 2) (Some 3) (Some 4) []) = []"
proof -
  have n: "NumClasses (metadata example_fresh) = 5"
    by (simp add: example_fresh_def example_metadata_def)
  have a: "LoadBoundingBoxes strict_ext
     \<lparr>load_name = prediction, load_class_id = 1, load_distance = Some 2,
      load_num_points = Some 3, load_rotation = Some 4\<rparr> = None"
    by (simp add: strict_ext_def strict_load_def)
  note t1 = prediction_load_omits_num_points
    [where classid = 1 and self = example_fresh and ext = strict_ext and difficulty = None
       and distance = "Some 2" and num_points = "Some 3" and rotation = "Some 4"
       and calls = "[]", OF refl refl]
  note t0 = prediction_load_omits_num_points
    [where classid = 0 and self = example_fresh and ext = strict_ext and difficulty = None
       and distance = "Some 2" and num_points = "Some 3" and rotation = "Some 4"
       and calls = "[]", OF refl refl]
  from t1 [THEN conjunct1] n
  have l: "snd (GetData strict_ext example_fresh 1 None (Some 2) (Some 3) (Some 4) []) =
     [\<lparr>load_name = groundtruth, load_class_id = 1, load_distance = Some 2,
       load_num_points = Some 3, load_rotation = Some 4\<rparr>,
      \<lparr>load_name = prediction, load_class_id = 1, load_distance = Some 2,
       load_num_points = None, load_rotation = Some 4\<rparr>]"
    by simp
  from t1 [THEN conjunct2, THEN conjunct2, THEN conjunct1] n strict_GetData
  have p: "LoadBoundingBoxes strict_ext
     \<lparr>load_name = prediction, load_class_id = 1, load_distance = Some 2,
      load_num_points = None, load_rotation = Some 4\<rparr> \<noteq> None"
    by simp
  from t0 [THEN conjunct1] n
  have z1: "snd (GetData strict_ext example_fresh 0 None (Some 2) (Some 3) (Some 4) []) = []"
    by simp
  from t0 [THEN conjunct2, THEN conjunct1] n
  have z2: "fst (GetData strict_ext example_fresh 0 None (Some 2) (Some 3) (Some 4) [])
     = Inl AssertionError"
    by simp
  from a strict_GetData l p z2 z1 show ?thesis by (intro conjI)
qed

text \<open>
  Claim C8. \<open>_GetData\<close> fails an assertion unless \<open>0 < classid < NumClasses()\<close>.
  Otherwise it returns \<open>None\<close> if the ground truth load or the prediction load is
  empty (either one suffices), and when both loads have boxes and the class has a name
  and an IoU threshold, it returns the populated result: that threshold, the ground truth
  imgid, bbox and speed arrays, and the prediction imgid, bbox and score arrays.
\<close>

theorem GetData_outcomes:
  "(\<not> (0 < classid \<and> classid < NumClasses (metadata self)) \<longrightarrow>
      fst (GetData ext self classid difficulty distance num_points rotation calls)
        = Inl AssertionError) \<and>
   (0 < classid \<and> classid < NumClasses (metadata self) \<longrightarrow>
      ((LoadBoundingBoxes ext
          \<lparr>load_name = groundtruth, load_class_id = classid, load_distance = distance,
           load_num_points = num_points, load_rotation = rotation\<rparr> = None \<or>
        LoadBoundingBoxes ext
          \<lparr>load_name = prediction, load_class_id = classid, load_distance = distance,
           load_num_points = None, load_rotation = rotation\<rparr> = None) \<longrightarrow>
       fst (GetData ext self classid difficulty distance num_points rotation calls) = Inr None) \<and>
      (\<forall>gv pv classname threshold.
         LoadBoundingBoxes ext
           \<lparr>load_name = groundtruth, load_class_id = classid, load_distance = distance,
            load_num_points = num_points, load_rotation = rotation\<rparr> = Some gv \<longrightarrow>
         LoadBoundingBoxes ext
           \<lparr>load_name = prediction, load_class_id = classid, load_distance = distance,
            load_num_points = None, load_rotation = rotation\<rparr> = Some pv \<longrightarrow>
         py_get (ClassNames (metadata self)) classid = Inr classname \<longrightarrow>
         iou_thresholds_by_class self classname = Some threshold \<longrightarrow>
         fst (GetData ext self classid difficulty distance num_points rotation calls) =
           Inr (Some \<lparr>iou_threshold = threshold,
                      gt_imgid = imgids gv, gt_bbox = boxes gv, gt_speed = speeds gv,
                      pd_imgid = imgids pv, pd_bbox = boxes pv, pd_score = scores pv\<rparr>)))"
  by (auto simp: GetData_def load_boxes_def dict_get_def split: option.splits)

lemma example_GetData_1:
  "fst (GetData example_ext example_fresh 1 None None None None []) =
     Inr (Some \<lparr>iou_threshold = 0.7, gt_imgid = [7], gt_bbox = [[0, 0, 0, 4, 2, 2, 0]],
                gt_speed = [[0, 0]], pd_imgid = [7], pd_bbox = [[0, 0, 0, 4, 2, 2, 0]],
                pd_score = [Fin 0.9]\<rparr>)"
  by (simp add: GetData_def load_boxes_def dict_get_def example_ext_def example_fresh_def
      example_metadata_def example_load_def py_get_def)

theorem GetData_outcomes_witness:
  "fst (GetData example_ext example_fresh 0 None None None None []) = Inl AssertionError \<and>
   fst (GetData example_ext example_fresh 5 None None None None []) = Inl AssertionError \<and>
   fst (GetData example_ext example_fresh 2 None None None None []) = Inr None \<and>
   fst (GetData example_ext example_fresh 1 None None None None []) =
     Inr (Some \<lparr>iou_threshold = 0.7, gt_imgid = [7], gt_bbox = [[0, 0, 0, 4, 2, 2, 0]],
                gt_speed = [[0, 0]], pd_imgid = [7], pd_bbox = [[0, 0, 0, 4, 2, 2, 0]],
                pd_score = [Fin 0.9]\<rparr>)"
proof -
  have n: "NumClasses (metadata example_fresh) = 5"
    by (simp add: example_fresh_def example_metadata_def)
  from GetData_outcomes [of 0 example_fresh example_ext None None None None "[]"] n
  have a: "fst (GetData example_ext example_fresh 0 None None None None []) = Inl AssertionError"
    by simp
  from GetData_outcomes [of 5 example_fresh example_ext None None None None "[]"] n
  have b: "fst (GetData example_ext example_fresh 5 None None None None []) = Inl AssertionError"
    by simp
  have "LoadBoundingBoxes example_ext
          \<lparr>load_name = prediction, load_class_id = 2, load_distance = None,
           load_num_points = None, load_rotation = None\<rparr> = None"
    by (simp add: example_ext_def example_load_def)
  with GetData_outcomes [of 2 example_fresh example_ext None None None None "[]"] n
  have c: "fst (GetData example_ext example_fresh 2 None None None None []) = Inr None"
    by simp
  from a b c example_GetData_1 show ?thesis by simp
qed

section \<open>The weighted value\<close>

lemma py_get_nat: "i < length xs \<Longrightarrow> py_get xs (int i) = Inr (xs ! i)"
  by (simp add: py_get_def)

lemma py_range_int: "py_range (int n) = map int [0..<n]"
proof (rule nth_equalityI)
  show "length (py_range (int n)) = length (map int [0..<n])" by (simp add: py_range_def)
next
  fix i assume "i < length (py_range (int n))"
  then show "py_range (int n) ! i = map int [0..<n] ! i" by (simp add: py_range_def)
qed

lemma value_loop_sum:
  assumes "py_get breakdown_names 0 = Inr overall" and "ap_map overall = Some aps"
    and "\<forall>i \<in> set ns. i < length aps"
  shows "value_loop ap_map breakdown_names (map int ns) (num_sum, denom_sum) =
           Inr (num_sum + sum_list (map (\<lambda>i. nan_to_num (aps ! i)) ns),
                denom_sum + real (length ns))"
  using assms(3)
proof (induction ns arbitrary: num_sum denom_sum)
  case Nil
  then show ?case by simp
next
  case (Cons k ns)
  from Cons.prems have k: "py_get aps (int k) = Inr (aps ! k)" by (simp add: py_get_nat)
  from Cons.prems have "\<forall>i \<in> set ns. i < length aps" by simp
  from Cons.IH [OF this] k assms(1,2) show ?case
    by (simp add: dict_get_def algebra_simps)
qed

lemma map_nth_upt_take: "n \<le> length xs \<Longrightarrow> map ((!) xs) [0..<n] = take n xs"
  by (rule nth_equalityI) simp_all

text \<open>
  Claim C1. Once the evaluation trigger has returned, \<open>value\<close> is the mean of the
  average precisions of the overall breakdown (the first breakdown name) over the
  eval-class positions: each entry goes through \<open>nan_to_num\<close>, which replaces NaN by 0
  and leaves a finite entry as it is, the entries are summed, and the sum is divided by
  the number of eval classes. The entries \<open>[0.8, NaN, 0.6]\<close> give \<open>(0.8 + 0 + 0.6) / 3\<close>.
\<close>

theorem value_is_mean_with_nan_as_zero:
  assumes "EvaluateIfNecessary_fn self = (self1, None)"
    and "get_breakdown_names_from_config ext (waymo_metric_config self1) = overall # extra"
    and "average_precisions (waymo self1) overall = Some aps"
    and "n = length (EvalClassIndices (metadata self1))"
    and "0 < n" and "n \<le> length aps"
  shows "WaymoAPMetrics_value ext EvaluateIfNecessary_fn self =
           (self1, Inr (sum_list (map nan_to_num (take n aps)) / real n)) \<and>
         nan_to_num NaN = 0 \<and> (\<forall>x. nan_to_num (Fin x) = x)"
proof -
  have g: "py_get (overall # extra) 0 = Inr overall" by (simp add: py_get_def)
  have "\<forall>i \<in> set [0..<n]. i < length aps" using assms(6) by simp
  from value_loop_sum [where ap_map = "average_precisions (waymo self1)", OF g assms(3) this, of 0 0]
  have "value_loop (average_precisions (waymo self1)) (overall # extra) (py_range (int n)) (0, 0)
        = Inr (sum_list (map (\<lambda>i. nan_to_num (aps ! i)) [0..<n]), real n)"
    by (simp add: py_range_int)
  moreover have "map (\<lambda>i. nan_to_num (aps ! i)) [0..<n] = map nan_to_num (take n aps)"
  proof -
    have "map nan_to_num (take n aps) = map nan_to_num (map ((!) aps) [0..<n])"
      by (simp only: map_nth_upt_take [OF assms(6)])
    then show ?thesis by (simp add: comp_def)
  qed
  ultimately have "value_loop (average_precisions (waymo self1)) (overall # extra)
      (py_range (int n)) (0, 0) = Inr (sum_list (map nan_to_num (take n aps)), real n)"
    by simp
  with assms(1,2,4,5) show ?thesis
    by (simp add: WaymoAPMetrics_value_def py_truediv_def)
qed

theorem value_is_mean_with_nan_as_zero_witness:
  "WaymoAPMetrics_value example_ext no_trigger example_populated =
     (example_populated, Inr ((0.8 + 0 + 0.6) / 3))"
proof -
  have a: "no_trigger example_populated = (example_populated, None)"
    by (simp add: no_trigger_def)
  have c: "waymo_metric_config example_populated = example_config"
    by (simp add: example_populated_def example_fresh_def)
  have b: "get_breakdown_names_from_config example_ext (waymo_metric_config example_populated)
           = ''ONE_SHARD'' # [''RANGE_TYPE_VEHICLE_[0, 30)'', ''RANGE_TYPE_PEDESTRIAN_[0, 30)'']"
    unfolding c by (simp add: example_ext_def example_names_def example_config_def)
  have d: "average_precisions (waymo example_populated) ''ONE_SHARD'' = Some [Fin 0.8, NaN, Fin 0.6]"
    by (simp add: example_populated_def example_scalars_def)
  have e: "3 = length (EvalClassIndices (metadata example_populated))"
    by (simp add: example_populated_def example_fresh_def example_metadata_def)
  from value_is_mean_with_nan_as_zero
    [where EvaluateIfNecessary_fn = no_trigger and self = example_populated, OF a b d e]
  show ?thesis by simp
qed

section \<open>The evaluator\<close>

lemma snd_enumerate_from: "map snd (enumerate_from k xs) = xs"
  by (induction xs arbitrary: k) simp_all

lemma dummy_metrics_keys:
  assumes "dummy_metrics ds dc names (sm, cm) = (sm', cm')"
  shows "dom sm' = dom sm \<union> (\<lambda>m. ''ap_'' @ m) ` set names
                     \<union> (\<lambda>m. ''ap_ha_weighted_'' @ m) ` set names \<and>
         dom cm' = dom cm \<union> (\<lambda>m. ''pr_'' @ m) ` set names
                     \<union> (\<lambda>m. ''pr_ha_weighted_'' @ m) ` set names"
  using assms
proof (induction names arbitrary: sm cm)
  case Nil
  then show ?case by simp
next
  case (Cons m names)
  from Cons.prems have
    "dummy_metrics ds dc names
       (sm(''ap_'' @ m \<mapsto> ds, ''ap_ha_weighted_'' @ m \<mapsto> ds),
        cm(''pr_'' @ m \<mapsto> dc, ''pr_ha_weighted_'' @ m \<mapsto> dc)) = (sm', cm')"
    by simp
  from Cons.IH [OF this] show ?case by auto
qed

lemma dummy_metrics_values:
  assumes "dummy_metrics ds dc names (sm, cm) = (sm', cm')"
    and "\<forall>k \<in> dom sm. sm k = Some ds" and "\<forall>k \<in> dom cm. cm k = Some dc"
  shows "(\<forall>k \<in> dom sm'. sm' k = Some ds) \<and> (\<forall>k \<in> dom cm'. cm' k = Some dc)"
  using assms
proof (induction names arbitrary: sm cm)
  case Nil
  then show ?case by simp
next
  case (Cons m names)
  let ?sm = "sm(''ap_'' @ m \<mapsto> ds, ''ap_ha_weighted_'' @ m \<mapsto> ds)"
  let ?cm = "cm(''pr_'' @ m \<mapsto> dc, ''pr_ha_weighted_'' @ m \<mapsto> dc)"
  from Cons.prems(1) have r: "dummy_metrics ds dc names (?sm, ?cm) = (sm', cm')" by simp
  have s: "\<forall>k \<in> dom ?sm. ?sm k = Some ds" using Cons.prems(2) by auto
  have c: "\<forall>k \<in> dom ?cm. ?cm k = Some dc" using Cons.prems(3) by auto
  from Cons.IH [OF r s c] show ?case .
qed

lemma op_metrics_keys:
  assumes "op_metrics out kbs (sm, cm) = Inr (sm', cm')"
  shows "dom sm' = dom sm \<union> (\<lambda>m. ''ap_'' @ m) ` set (map snd kbs)
                     \<union> (\<lambda>m. ''ap_ha_weighted_'' @ m) ` set (map snd kbs) \<and>
         dom cm' = dom cm \<union> (\<lambda>m. ''pr_'' @ m) ` set (map snd kbs)
                     \<union> (\<lambda>m. ''pr_ha_weighted_'' @ m) ` set (map snd kbs)"
  using assms
proof (induction kbs arbitrary: sm cm)
  case Nil
  then show ?case by simp
next
  case (Cons kb kbs)
  obtain i m where kb: "kb = (i, m)" by (cases kb)
  from Cons.prems kb obtain a ah p ph where
    "op_metrics out kbs
       (sm(''ap_'' @ m \<mapsto> a, ''ap_ha_weighted_'' @ m \<mapsto> ah),
        cm(''pr_'' @ m \<mapsto> p, ''pr_ha_weighted_'' @ m \<mapsto> ph)) = Inr (sm', cm')"
    by (auto split: sum.splits)
  from Cons.IH [OF this] kb show ?case by auto
qed

text \<open>
  Claim C2. For every class id and config (with a number of precision/recall points
  \<open>P \<ge> 0\<close>, so that the shape \<open>[P, 2]\<close> exists), \<open>_BuildMetric\<close> called with
  \<open>feed_data = None\<close> returns scalars that are all NaN and curves that are all-zero
  arrays of shape \<open>[P, 2]\<close>, with an empty feed dict. The scalar keys are \<open>ap\<close>,
  \<open>ap_ha_weighted\<close> and \<open>ap_<name>\<close>, \<open>ap_ha_weighted_<name>\<close> for the breakdown names;
  the curve keys are \<open>pr\<close>, \<open>pr_ha_weighted\<close> and \<open>pr_<name>\<close>, \<open>pr_ha_weighted_<name>\<close>.
  Whenever the populated-data branch returns, its scalars and curves have exactly these
  key sets.
\<close>

theorem BuildMetric_placeholder_same_keys:
  assumes "0 \<le> NumberOfPrecisionRecallPoints (metadata self)"
    and "names = get_breakdown_names_from_config ext (waymo_metric_config self)"
  shows "\<exists>scalars curves.
      BuildMetric ext self None classid = Inr (scalars, curves, []) \<and>
      dom scalars = {''ap'', ''ap_ha_weighted''} \<union> (\<lambda>m. ''ap_'' @ m) ` set names
                      \<union> (\<lambda>m. ''ap_ha_weighted_'' @ m) ` set names \<and>
      (\<forall>k \<in> dom scalars. scalars k = Some NaN) \<and>
      dom curves = {''pr'', ''pr_ha_weighted''} \<union> (\<lambda>m. ''pr_'' @ m) ` set names
                      \<union> (\<lambda>m. ''pr_ha_weighted_'' @ m) ` set names \<and>
      (\<forall>k \<in> dom curves. curves k =
          Some (replicate (nat (NumberOfPrecisionRecallPoints (metadata self))) (Fin 0, Fin 0))) \<and>
      (\<forall>fd scalars' curves' feed_dict.
          BuildMetric ext self (Some fd) classid = Inr (scalars', curves', feed_dict) \<longrightarrow>
          dom scalars' = dom scalars \<and> dom curves' = dom curves)"
proof -
  let ?dc = "replicate (nat (NumberOfPrecisionRecallPoints (metadata self))) (Fin 0, Fin 0)"
  let ?sm0 = "[''ap'' \<mapsto> NaN, ''ap_ha_weighted'' \<mapsto> NaN]"
  let ?cm0 = "[''pr'' \<mapsto> ?dc, ''pr_ha_weighted'' \<mapsto> ?dc]"
  obtain scalars curves where d: "dummy_metrics NaN ?dc names (?sm0, ?cm0) = (scalars, curves)"
    by (cases "dummy_metrics NaN ?dc names (?sm0, ?cm0)")
  from assms d have b: "BuildMetric ext self None classid = Inr (scalars, curves, [])"
    by (simp add: BuildMetric_def tf_zeros_def)
  from dummy_metrics_keys [OF d]
  have ks: "dom scalars = {''ap'', ''ap_ha_weighted''} \<union> (\<lambda>m. ''ap_'' @ m) ` set names
                      \<union> (\<lambda>m. ''ap_ha_weighted_'' @ m) ` set names"
    and kc: "dom curves = {''pr'', ''pr_ha_weighted''} \<union> (\<lambda>m. ''pr_'' @ m) ` set names
                      \<union> (\<lambda>m. ''pr_ha_weighted_'' @ m) ` set names"
    by auto
  have "\<forall>k \<in> dom ?sm0. ?sm0 k = Some NaN" "\<forall>k \<in> dom ?cm0. ?cm0 k = Some ?dc" by auto
  from dummy_metrics_values [OF d this]
  have vs: "\<forall>k \<in> dom scalars. scalars k = Some NaN"
    and vc: "\<forall>k \<in> dom curves. curves k = Some ?dc"
    by blast+
  have p: "dom scalars' = dom scalars \<and> dom curves' = dom curves"
    if "BuildMetric ext self (Some fd) classid = Inr (scalars', curves', feed_dict)"
    for fd scalars' curves' feed_dict
  proof -
    from that assms(2) obtain out a ah p ph where
      o: "op_metrics out (enumerate_from 0 names)
            ([''ap'' \<mapsto> a, ''ap_ha_weighted'' \<mapsto> ah], [''pr'' \<mapsto> p, ''pr_ha_weighted'' \<mapsto> ph])
          = Inr (scalars', curves')"
      by (auto simp: BuildMetric_def Let_def split: sum.splits)
    from op_metrics_keys [OF o] ks kc show ?thesis
      by (simp add: snd_enumerate_from) blast
  qed
  from b ks vs kc vc p show ?thesis by blast
qed

lemma example_BuildMetric_populated:
  "\<exists>scalars curves feed_dict.
     BuildMetric example_ext example_fresh (Some example_feed) 1 = Inr (scalars, curves, feed_dict) \<and>
     scalars ''ap_ONE_SHARD'' = Some (Fin 0.8) \<and>
     scalars ''ap_RANGE_TYPE_VEHICLE_[0, 30)'' = Some (Fin 0.9)"
  by (simp add: BuildMetric_def example_ext_def example_fresh_def example_names_def
      example_config_def example_op_def tensor_get_def Let_def)

theorem BuildMetric_placeholder_same_keys_witness:
  "0 \<le> NumberOfPrecisionRecallPoints (metadata example_fresh) \<and>
   (\<exists>scalars curves.
      BuildMetric example_ext example_fresh None 1 = Inr (scalars, curves, []) \<and>
      scalars ''ap'' = Some NaN \<and>
      scalars ''ap_ha_weighted_RANGE_TYPE_VEHICLE_[0, 30)'' = Some NaN \<and>
      curves ''pr_ONE_SHARD'' = Some [(Fin 0, Fin 0), (Fin 0, Fin 0), (Fin 0, Fin 0)] \<and>
      (\<exists>scalars' curves' feed_dict.
         BuildMetric example_ext example_fresh (Some example_feed) 1
           = Inr (scalars', curves', feed_dict) \<and>
         dom scalars' = dom scalars \<and> dom curves' = dom curves \<and>
         scalars' ''ap_ONE_SHARD'' = Some (Fin 0.8)))"
proof -
  have P: "NumberOfPrecisionRecallPoints (metadata example_fresh) = 3"
    by (simp add: example_fresh_def example_metadata_def)
  then have P0: "0 \<le> NumberOfPrecisionRecallPoints (metadata example_fresh)" by simp
  have n: "[''ONE_SHARD'', ''RANGE_TYPE_VEHICLE_[0, 30)'', ''RANGE_TYPE_PEDESTRIAN_[0, 30)'']
           = get_breakdown_names_from_config example_ext (waymo_metric_config example_fresh)"
    by (simp add: example_ext_def example_fresh_def example_names_def example_config_def)
  from BuildMetric_placeholder_same_keys [OF P0 n, of 1]
  obtain scalars curves where
    H: "BuildMetric example_ext example_fresh None 1 = Inr (scalars, curves, []) \<and>
      dom scalars = {''ap'', ''ap_ha_weighted''}
        \<union> (\<lambda>m. ''ap_'' @ m) ` set [''ONE_SHARD'', ''RANGE_TYPE_VEHICLE_[0, 30)'', ''RANGE_TYPE_PEDESTRIAN_[0, 30)'']
        \<union> (\<lambda>m. ''ap_ha_weighted_'' @ m) ` set [''ONE_SHARD'', ''RANGE_TYPE_VEHICLE_[0, 30)'', ''RANGE_TYPE_PEDESTRIAN_[0, 30)''] \<and>
      (\<forall>k \<in> dom scalars. scalars k = Some NaN) \<and>
      dom curves = {''pr'', ''pr_ha_weighted''}
        \<union> (\<lambda>m. ''pr_'' @ m) ` set [''ONE_SHARD'', ''RANGE_TYPE_VEHICLE_[0, 30)'', ''RANGE_TYPE_PEDESTRIAN_[0, 30)'']
        \<union> (\<lambda>m. ''pr_ha_weighted_'' @ m) ` set [''ONE_SHARD'', ''RANGE_TYPE_VEHICLE_[0, 30)'', ''RANGE_TYPE_PEDESTRIAN_[0, 30)''] \<and>
      (\<forall>k \<in> dom curves. curves k =
          Some (replicate (nat (NumberOfPrecisionRecallPoints (metadata example_fresh))) (Fin 0, Fin 0))) \<and>
      (\<forall>fd scalars' curves' feed_dict.
          BuildMetric example_ext example_fresh (Some fd) 1 = Inr (scalars', curves', feed_dict) \<longrightarrow>
          dom scalars' = dom scalars \<and> dom curves' = dom curves)"
    by (elim exE)
  note b = H [THEN conjunct1]
  note ks = H [THEN conjunct2, THEN conjunct1]
  note vs = H [THEN conjunct2, THEN conjunct2, THEN conjunct1]
  note kc = H [THEN conjunct2, THEN conjunct2, THEN conjunct2, THEN conjunct1]
  note vc = H [THEN conjunct2, THEN conjunct2, THEN conjunct2, THEN conjunct2, THEN conjunct1]
  note p = H [THEN conjunct2, THEN conjunct2, THEN conjunct2, THEN conjunct2, THEN conjunct2,
              rule_format]
  have "''ap'' \<in> dom scalars" unfolding ks by simp
  with vs have v0: "scalars ''ap'' = Some NaN" by (rule bspec)
  have "''ap_ha_weighted_RANGE_TYPE_VEHICLE_[0, 30)'' \<in> dom scalars" unfolding ks by simp
  with vs have v1: "scalars ''ap_ha_weighted_RANGE_TYPE_VEHICLE_[0, 30)'' = Some NaN" by (rule bspec)
  have "''pr_ONE_SHARD'' \<in> dom curves" unfolding kc by simp
  with vc have "curves ''pr_ONE_SHARD'' =
          Some (replicate (nat (NumberOfPrecisionRecallPoints (metadata example_fresh))) (Fin 0, Fin 0))"
    by (rule bspec)
  with P have v2: "curves ''pr_ONE_SHARD'' = Some [(Fin 0, Fin 0), (Fin 0, Fin 0), (Fin 0, Fin 0)]"
    by (simp add: numeral_3_eq_3)
  from example_BuildMetric_populated obtain scalars' curves' feed_dict where
    q: "BuildMetric example_ext example_fresh (Some example_feed) 1
          = Inr (scalars', curves', feed_dict)"
    and q1: "scalars' ''ap_ONE_SHARD'' = Some (Fin 0.8)"
    by (elim exE conjE)
  from p [OF q] have d: "dom scalars' = dom scalars" "dom curves' = dom curves" by simp_all
  show ?thesis
    apply (rule conjI [OF P0])
    apply (rule exI [of _ scalars], rule exI [of _ curves])
    apply (intro conjI b v0 v1 v2)
    apply (rule exI [of _ scalars'], rule exI [of _ curves'], rule exI [of _ feed_dict])
    apply (intro conjI q d q1)
    done
qed

section \<open>The summary\<close>

lemma py_get_int_Inr: "py_get xs (int i) = Inr v \<Longrightarrow> v = xs ! i"
  by (simp add: py_get_def split: if_splits)

lemma dict_get_Inr: "dict_get d k = Inr v \<Longrightarrow> d k = Some v"
  by (simp add: dict_get_def split: option.splits)

lemma Summary_breakdowns_emitted:
  "Summary_breakdowns name classname ap_map aph_map i kbs = Inr entries \<Longrightarrow>
   entries = concat (map (spec_scalar_pair name ap_map aph_map i classname)
     (filter (\<lambda>(k, breakdown_name). k = 0 \<or> str_in (lower classname) (lower breakdown_name)) kbs))"
proof (induction kbs arbitrary: entries)
  case Nil
  then show ?case by simp
next
  case (Cons kb kbs)
  obtain k bn where kb: "kb = (k, bn)" by (cases kb)
  show ?case
  proof (cases "k > 0 \<and> \<not> str_in (lower classname) (lower bn)")
    case True
    with Cons.prems kb have "Summary_breakdowns name classname ap_map aph_map i kbs = Inr entries"
      by simp
    from Cons.IH [OF this] True kb show ?thesis by simp
  next
    case False
    with Cons.prems kb obtain aps ap_value aphs aph_value others where
      a: "dict_get ap_map bn = Inr aps" "py_get aps (int i) = Inr ap_value"
         "dict_get aph_map bn = Inr aphs" "py_get aphs (int i) = Inr aph_value"
      and r: "Summary_breakdowns name classname ap_map aph_map i kbs = Inr others"
      and e: "entries =
          SimpleValue ((if k = 0 then name @ ''/'' @ classname else name @ ''_extra'')
                        @ ''/AP_'' @ (if k = 0 then ''default'' else bn)) ap_value
          # SimpleValue ((if k = 0 then name @ ''/'' @ classname else name @ ''_extra'')
                        @ ''/APH_'' @ (if k = 0 then ''default'' else bn)) aph_value
          # others"
      by (simp add: Let_def split: sum.splits if_splits)
    from a have v: "the (ap_map bn) ! i = ap_value" "the (aph_map bn) ! i = aph_value"
      by (auto dest!: dict_get_Inr py_get_int_Inr)
    have "spec_scalar_pair name ap_map aph_map i classname (k, bn) =
          [SimpleValue ((if k = 0 then name @ ''/'' @ classname else name @ ''_extra'')
                        @ ''/AP_'' @ (if k = 0 then ''default'' else bn)) ap_value,
           SimpleValue ((if k = 0 then name @ ''/'' @ classname else name @ ''_extra'')
                        @ ''/APH_'' @ (if k = 0 then ''default'' else bn)) aph_value]"
      unfolding spec_scalar_pair_def Let_def fst_conv snd_conv v by (rule refl)
    with Cons.IH [OF r] e False kb show ?thesis by simp
  qed
qed

lemma GenerateSummaries_breakdowns_emitted:
  "GenerateSummaries_breakdowns name classname pr_map i kbs = Inr plots \<Longrightarrow>
   plots = map (spec_plot name pr_map i classname)
     (filter (\<lambda>(k, breakdown_name). k = 0 \<or> str_in (lower classname) (lower breakdown_name)) kbs)"
proof (induction kbs arbitrary: plots)
  case Nil
  then show ?case by simp
next
  case (Cons kb kbs)
  obtain k bn where kb: "kb = (k, bn)" by (cases kb)
  show ?case
  proof (cases "k > 0 \<and> \<not> str_in (lower classname) (lower bn)")
    case True
    with Cons.prems kb have "GenerateSummaries_breakdowns name classname pr_map i kbs = Inr plots"
      by simp
    from Cons.IH [OF this] True kb show ?thesis by simp
  next
    case False
    with Cons.prems kb obtain curves curve others where
      a: "dict_get pr_map bn = Inr curves" "py_get curves (int i) = Inr curve"
      and r: "GenerateSummaries_breakdowns name classname pr_map i kbs = Inr others"
      and e: "plots =
          ImageValue (if k = 0 then name @ ''/'' @ classname @ ''/PR''
                      else name @ ''/'' @ classname @ ''/'' @ bn @ ''/PR'')
            (map snd curve) (map fst curve) # others"
      by (simp add: Let_def split: sum.splits if_splits)
    from a have v: "the (pr_map bn) ! i = curve"
      by (auto dest!: dict_get_Inr py_get_int_Inr)
    have "spec_plot name pr_map i classname (k, bn) =
          ImageValue (if k = 0 then name @ ''/'' @ classname @ ''/PR''
                      else name @ ''/'' @ classname @ ''/'' @ bn @ ''/PR'')
            (map snd curve) (map fst curve)"
      unfolding spec_plot_def fst_conv snd_conv v by (rule refl)
    with Cons.IH [OF r] e False kb show ?thesis by simp
  qed
qed

lemma Summary_classes_emitted:
  "Summary_classes name class_names ap_map aph_map breakdown_names (enumerate_from n js) = Inr entries
   \<Longrightarrow> \<exists>classnames. mapM_err (py_get class_names) js = Inr classnames \<and>
         entries = concat (map (\<lambda>(i, classname).
                concat (map (spec_scalar_pair name ap_map aph_map i classname)
                          (emitted_breakdowns classname breakdown_names)))
             (enumerate_from n classnames))"
proof (induction js arbitrary: n entries)
  case Nil
  then show ?case by simp
next
  case (Cons j js)
  from Cons.prems obtain classname es others where
    c: "py_get class_names j = Inr classname"
    and b: "Summary_breakdowns name classname ap_map aph_map n (enumerate_from 0 breakdown_names)
            = Inr es"
    and r: "Summary_classes name class_names ap_map aph_map breakdown_names
              (enumerate_from (Suc n) js) = Inr others"
    and e: "entries = es @ others"
    by (simp split: sum.splits)
  from Cons.IH [OF r] obtain cns where
    m: "mapM_err (py_get class_names) js = Inr cns"
    and o: "others = concat (map (\<lambda>(i, classname).
                concat (map (spec_scalar_pair name ap_map aph_map i classname)
                          (emitted_breakdowns classname breakdown_names)))
             (enumerate_from (Suc n) cns))"
    by (elim exE conjE)
  from Summary_breakdowns_emitted [OF b]
  have es: "es = concat (map (spec_scalar_pair name ap_map aph_map n classname)
                          (emitted_breakdowns classname breakdown_names))"
    by (simp only: emitted_breakdowns_def)
  have "mapM_err (py_get class_names) (j # js) = Inr (classname # cns)"
    using c m by simp
  moreover have "entries = concat (map (\<lambda>(i, classname).
                concat (map (spec_scalar_pair name ap_map aph_map i classname)
                          (emitted_breakdowns classname breakdown_names)))
             (enumerate_from n (classname # cns)))"
    using e es o by simp
  ultimately show ?case by (intro exI conjI)
qed

lemma GenerateSummaries_classes_emitted:
  "GenerateSummaries_classes name class_names pr_map breakdown_names (enumerate_from n js) = Inr plots
   \<Longrightarrow> \<exists>classnames. mapM_err (py_get class_names) js = Inr classnames \<and>
         plots = concat (map (\<lambda>(i, classname).
                map (spec_plot name pr_map i classname)
                  (emitted_breakdowns classname breakdown_names))
             (enumerate_from n classnames))"
proof (induction js arbitrary: n plots)
  case Nil
  then show ?case by simp
next
  case (Cons j js)
  from Cons.prems obtain classname es others where
    c: "py_get class_names j = Inr classname"
    and b: "GenerateSummaries_breakdowns name classname pr_map n (enumerate_from 0 breakdown_names)
            = Inr es"
    and r: "GenerateSummaries_classes name class_names pr_map breakdown_names
              (enumerate_from (Suc n) js) = Inr others"
    and e: "plots = es @ others"
    by (simp split: sum.splits)
  from Cons.IH [OF r] obtain cns where
    m: "mapM_err (py_get class_names) js = Inr cns"
    and o: "others = concat (map (\<lambda>(i, classname).
                map (spec_plot name pr_map i classname)
                  (emitted_breakdowns classname breakdown_names))
             (enumerate_from (Suc n) cns))"
    by (elim exE conjE)
  from GenerateSummaries_breakdowns_emitted [OF b]
  have es: "es = map (spec_plot name pr_map n classname)
                          (emitted_breakdowns classname breakdown_names)"
    by (simp only: emitted_breakdowns_def)
  have "mapM_err (py_get class_names) (j # js) = Inr (classname # cns)"
    using c m by simp
  moreover have "plots = concat (map (\<lambda>(i, classname).
                map (spec_plot name pr_map i classname)
                  (emitted_breakdowns classname breakdown_names))
             (enumerate_from n (classname # cns)))"
    using e es o by simp
  ultimately show ?case by (intro exI conjI)
qed

lemma set_enumerate_from:
  "(k, x) \<in> set (enumerate_from n xs) \<longleftrightarrow> n \<le> k \<and> k - n < length xs \<and> x = xs ! (k - n)"
proof (induction xs arbitrary: n)
  case Nil
  then show ?case by simp
next
  case (Cons y ys)
  show ?case
  proof (cases "k = n")
    case True
    then show ?thesis using Cons.IH [of "Suc n"] by auto
  next
    case False
    then have "(k, x) \<in> set (enumerate_from n (y # ys)) \<longleftrightarrow> (k, x) \<in> set (enumerate_from (Suc n) ys)"
      by simp
    also have "\<dots> \<longleftrightarrow> Suc n \<le> k \<and> k - Suc n < length ys \<and> x = ys ! (k - Suc n)"
      by (rule Cons.IH)
    also have "\<dots> \<longleftrightarrow> n \<le> k \<and> k - n < length (y # ys) \<and> x = (y # ys) ! (k - n)"
    proof (cases "n < k")
      case True
      then have "k - n = Suc (k - Suc n)" by simp
      then show ?thesis using True by simp
    next
      case False
      then show ?thesis using \<open>k \<noteq> n\<close> by simp
    qed
    finally show ?thesis .
  qed
qed

lemma emitted_breakdowns_iff:
  "(k, breakdown_name) \<in> set (emitted_breakdowns classname breakdown_names) \<longleftrightarrow>
     k < length breakdown_names \<and> breakdown_name = breakdown_names ! k \<and>
     (k = 0 \<or> str_in (lower classname) (lower breakdown_name))"
  by (auto simp: emitted_breakdowns_def set_enumerate_from)

text \<open>
  Claim C3. Whenever \<open>Summary\<close> returns, its report is the weighted mAP scalar, then for
  every eval class and every breakdown that passes the rule one AP/APH scalar pair, then
  (from \<open>GenerateSummaries\<close>) for every eval class and every breakdown that passes the
  rule one precision/recall plot. A breakdown at index \<open>k\<close> passes the rule for a class
  exactly when \<open>k = 0\<close> or the lowercased class name is a substring of the lowercased
  breakdown name: the overall breakdown is reported for every eval class, and an extra
  breakdown only under a class whose name it contains.
\<close>

theorem rendering_filter_rule:
  assumes "Summary ext EvaluateIfNecessary_fn self name = (self2, Inr ret)"
  shows "(\<exists>weighted classnames bm_classnames.
      mapM_err (py_get (ClassNames (metadata self2))) (EvalClassIndices (metadata self2))
        = Inr classnames \<and>
      mapM_err (py_get (ClassNames (bm_metadata (waymo self2))))
        (EvalClassIndices (bm_metadata (waymo self2))) = Inr bm_classnames \<and>
      GenerateSummaries (waymo self2) name =
        Inr (spec_plots name (precision_recall (waymo self2)) (breakdown_list (waymo self2))
               bm_classnames) \<and>
      ret = SimpleValue (name @ ''/weighted_mAP'') (Fin weighted)
            # spec_scalars name (average_precisions (waymo self2))
                (average_precision_headings (waymo self2))
                (get_breakdown_names_from_config ext (waymo_metric_config self2)) classnames
            @ spec_plots name (precision_recall (waymo self2)) (breakdown_list (waymo self2))
                bm_classnames) \<and>
   (\<forall>classname breakdown_names k breakdown_name.
      (k, breakdown_name) \<in> set (emitted_breakdowns classname breakdown_names) \<longleftrightarrow>
      k < length breakdown_names \<and> breakdown_name = breakdown_names ! k \<and>
      (k = 0 \<or> str_in (lower classname) (lower breakdown_name)))"
proof -
  from assms obtain self1 weighted entries image_summaries where
    s: "Summary_classes name (ClassNames (metadata self2))
          (average_precisions (waymo self2)) (average_precision_headings (waymo self2))
          (get_breakdown_names_from_config ext (waymo_metric_config self2))
          (enumerate_from 0 (EvalClassIndices (metadata self2))) = Inr entries"
    and g: "GenerateSummaries (waymo self2) name = Inr image_summaries"
    and r: "ret = SimpleValue (name @ ''/weighted_mAP'') (Fin weighted) # entries @ image_summaries"
    by (auto simp: Summary_def split: prod.splits option.splits sum.splits)
  from Summary_classes_emitted [OF s] obtain classnames where
    c: "mapM_err (py_get (ClassNames (metadata self2))) (EvalClassIndices (metadata self2))
        = Inr classnames"
    and e: "entries = spec_scalars name (average_precisions (waymo self2))
                (average_precision_headings (waymo self2))
                (get_breakdown_names_from_config ext (waymo_metric_config self2)) classnames"
    unfolding spec_scalars_def by (elim exE conjE)
  from g have "GenerateSummaries_classes name (ClassNames (bm_metadata (waymo self2)))
       (precision_recall (waymo self2)) (breakdown_list (waymo self2))
       (enumerate_from 0 (EvalClassIndices (bm_metadata (waymo self2)))) = Inr image_summaries"
    by (simp add: GenerateSummaries_def)
  from GenerateSummaries_classes_emitted [OF this] obtain bm_classnames where
    bc: "mapM_err (py_get (ClassNames (bm_metadata (waymo self2))))
        (EvalClassIndices (bm_metadata (waymo self2))) = Inr bm_classnames"
    and i: "image_summaries = spec_plots name (precision_recall (waymo self2))
              (breakdown_list (waymo self2)) bm_classnames"
    unfolding spec_plots_def by (elim exE conjE)
  have "\<exists>weighted classnames bm_classnames.
      mapM_err (py_get (ClassNames (metadata self2))) (EvalClassIndices (metadata self2))
        = Inr classnames \<and>
      mapM_err (py_get (ClassNames (bm_metadata (waymo self2))))
        (EvalClassIndices (bm_metadata (waymo self2))) = Inr bm_classnames \<and>
      GenerateSummaries (waymo self2) name =
        Inr (spec_plots name (precision_recall (waymo self2)) (breakdown_list (waymo self2))
               bm_classnames) \<and>
      ret = SimpleValue (name @ ''/weighted_mAP'') (Fin weighted)
            # spec_scalars name (average_precisions (waymo self2))
                (average_precision_headings (waymo self2))
                (get_breakdown_names_from_config ext (waymo_metric_config self2)) classnames
            @ spec_plots name (precision_recall (waymo self2)) (breakdown_list (waymo self2))
                bm_classnames"
    using c bc g r e i by (intro exI [of _ weighted] exI [of _ classnames] exI [of _ bm_classnames]) simp
  then show ?thesis using emitted_breakdowns_iff by (intro conjI allI) assumption+
qed

lemma Summary_no_trigger_fst: "fst (Summary ext no_trigger self name) = self"
  by (simp add: Summary_def WaymoAPMetrics_value_def no_trigger_def Let_def
      split: prod.splits option.splits sum.splits)

lemma example_Summary_snd:
  "snd (Summary example_ext no_trigger example_populated ''eval'') = Inr example_report"
  by code_simp

lemma example_str_in:
  "str_in (lower ''Vehicle'') (lower ''RANGE_TYPE_VEHICLE_[0, 30)'')"
  "\<not> str_in (lower ''Pedestrian'') (lower ''RANGE_TYPE_VEHICLE_[0, 30)'')"
  by code_simp+

theorem rendering_filter_rule_witness:
  "Summary example_ext no_trigger example_populated ''eval'' = (example_populated, Inr example_report) \<and>
   (0, ''ONE_SHARD'') \<in> set (emitted_breakdowns ''Cyclist''
      [''ONE_SHARD'', ''RANGE_TYPE_VEHICLE_[0, 30)'', ''RANGE_TYPE_PEDESTRIAN_[0, 30)'']) \<and>
   (1, ''RANGE_TYPE_VEHICLE_[0, 30)'') \<in> set (emitted_breakdowns ''Vehicle''
      [''ONE_SHARD'', ''RANGE_TYPE_VEHICLE_[0, 30)'', ''RANGE_TYPE_PEDESTRIAN_[0, 30)'']) \<and>
   (1, ''RANGE_TYPE_VEHICLE_[0, 30)'') \<notin> set (emitted_breakdowns ''Pedestrian''
      [''ONE_SHARD'', ''RANGE_TYPE_VEHICLE_[0, 30)'', ''RANGE_TYPE_PEDESTRIAN_[0, 30)''])"
proof -
  have S: "Summary example_ext no_trigger example_populated ''eval''
           = (example_populated, Inr example_report)"
    by (rule prod_eqI) (simp_all add: Summary_no_trigger_fst example_Summary_snd)
  note rule = rendering_filter_rule [OF S, THEN conjunct2, rule_format]
  have a: "(0, ''ONE_SHARD'') \<in> set (emitted_breakdowns ''Cyclist''
      [''ONE_SHARD'', ''RANGE_TYPE_VEHICLE_[0, 30)'', ''RANGE_TYPE_PEDESTRIAN_[0, 30)''])"
    by (subst rule) simp
  have b: "(1, ''RANGE_TYPE_VEHICLE_[0, 30)'') \<in> set (emitted_breakdowns ''Vehicle''
      [''ONE_SHARD'', ''RANGE_TYPE_VEHICLE_[0, 30)'', ''RANGE_TYPE_PEDESTRIAN_[0, 30)''])"
    by (subst rule) (simp add: example_str_in)
  have c: "(1, ''RANGE_TYPE_VEHICLE_[0, 30)'') \<notin> set (emitted_breakdowns ''Pedestrian''
      [''ONE_SHARD'', ''RANGE_TYPE_VEHICLE_[0, 30)'', ''RANGE_TYPE_PEDESTRIAN_[0, 30)''])"
    by (subst rule) (simp add: example_str_in)
  from S a b c show ?thesis by (intro conjI)
qed

section \<open>The evaluation trigger\<close>

lemma ComputeFinalMetrics_count:
  "n \<le> snd (ComputeFinalMetrics ext self cs n) \<and>
   snd (ComputeFinalMetrics ext self cs n) \<le> n + length cs"
proof (induction cs arbitrary: n)
  case Nil
  then show ?case by simp
next
  case (Cons c cs)
  show ?case
  proof (cases "fst (GetData ext self c None None None None [])")
    case (Inl e)
    then show ?thesis by simp
  next
    case (Inr data)
    define n1 where "n1 = (case data of None \<Rightarrow> n | Some fd \<Rightarrow> Suc n)"
    have n1: "n \<le> n1" "n1 \<le> Suc n" by (simp_all add: n1_def split: option.splits)
    show ?thesis
    proof (cases "BuildMetric ext self data c")
      case (Inl e)
      with Inr n1 show ?thesis by (simp add: n1_def [symmetric])
    next
      case b: (Inr t)
      obtain scalars curves feed_dict where t: "t = (scalars, curves, feed_dict)"
        by (cases t)
      from Cons.IH [of n1] n1
      have "n \<le> snd (ComputeFinalMetrics ext self cs n1)"
        "snd (ComputeFinalMetrics ext self cs n1) \<le> n + length (c # cs)"
        by simp_all
      with Inr b t show ?thesis
        by (auto simp: n1_def [symmetric] split: prod.splits sum.splits)
    qed
  qed
qed

lemma EvaluateIfNecessary_populated:
  "populated self \<Longrightarrow> EvaluateIfNecessary ext self = (self, None)"
  by (simp add: EvaluateIfNecessary_def)

lemma EvaluateIfNecessary_pass:
  assumes "\<not> populated self" and "EvaluateIfNecessary ext self = (self', r)"
  shows "evaluation_passes self' = Suc (evaluation_passes self) \<and>
         matcher_invocations self \<le> matcher_invocations self' \<and>
         matcher_invocations self'
           \<le> matcher_invocations self + length (EvalClassIndices (metadata self)) \<and>
         metadata self' = metadata self \<and>
         waymo_metric_config self' = waymo_metric_config self \<and>
         (populated self' \<longleftrightarrow> r = None)"
proof -
  let ?self1 = "self\<lparr>evaluation_passes := Suc (evaluation_passes self)\<rparr>"
  obtain fetched n where f: "ComputeFinalMetrics ext ?self1 (EvalClassIndices (metadata self))
      (matcher_invocations self) = (fetched, n)"
    by (cases "ComputeFinalMetrics ext ?self1 (EvalClassIndices (metadata self))
      (matcher_invocations self)")
  from ComputeFinalMetrics_count [of "matcher_invocations self" ext ?self1
      "EvalClassIndices (metadata self)"] f
  have n: "matcher_invocations self \<le> n"
    "n \<le> matcher_invocations self + length (EvalClassIndices (metadata self))"
    by simp_all
  obtain bm e where c: "ComputeMetrics (\<lambda>u. fetched) (waymo self) = (bm, e)"
    by (cases "ComputeMetrics (\<lambda>u. fetched) (waymo self)")
  from assms f c n show ?thesis
    by (cases e) (auto simp: EvaluateIfNecessary_def Let_def)
qed

lemma value_state:
  "fst (WaymoAPMetrics_value ext (EvaluateIfNecessary ext) self)
     = fst (EvaluateIfNecessary ext self)"
  by (simp add: WaymoAPMetrics_value_def Let_def split: prod.splits option.splits)

lemma value_returns:
  "WaymoAPMetrics_value ext (EvaluateIfNecessary ext) self = (self1, Inr v) \<Longrightarrow>
     EvaluateIfNecessary ext self = (self1, None)"
  by (auto simp: WaymoAPMetrics_value_def Let_def split: prod.splits option.splits)

lemma trigger_returns_populated:
  "EvaluateIfNecessary ext self = (self1, None) \<Longrightarrow> populated self1"
  using EvaluateIfNecessary_pass [of self ext self1 None] EvaluateIfNecessary_populated [of self ext]
  by (cases "populated self") auto

lemma Summary_state:
  "fst (Summary ext (EvaluateIfNecessary ext) self name) = fst (EvaluateIfNecessary ext self)"
proof (cases "EvaluateIfNecessary ext self")
  case (Pair self1 r)
  show ?thesis
  proof (cases r)
    case (Some e)
    with Pair show ?thesis by (simp add: Summary_def)
  next
    case None
    with Pair have "populated self1" by (simp add: trigger_returns_populated)
    then have "EvaluateIfNecessary ext self1 = (self1, None)"
      by (rule EvaluateIfNecessary_populated)
    then have "fst (WaymoAPMetrics_value ext (EvaluateIfNecessary ext) self1) = self1"
      by (simp add: value_state)
    with Pair None show ?thesis
      by (auto simp: Summary_def split: prod.splits sum.splits)
  qed
qed

lemma Summary_returns:
  "Summary ext (EvaluateIfNecessary ext) self name = (self1, Inr ret) \<Longrightarrow>
     EvaluateIfNecessary ext self = (self1, None)"
proof -
  assume a: "Summary ext (EvaluateIfNecessary ext) self name = (self1, Inr ret)"
  then have "fst (EvaluateIfNecessary ext self) = self1"
    using Summary_state [of ext self name] by simp
  moreover from a have "snd (EvaluateIfNecessary ext self) = None"
    by (auto simp: Summary_def split: prod.splits option.splits)
  ultimately show ?thesis by (cases "EvaluateIfNecessary ext self") simp
qed

lemma init_fresh:
  "WaymoAPMetrics_init ext md iou_by_class bt wb = Inr self \<Longrightarrow>
     \<not> populated self \<and> evaluation_passes self = 0 \<and> matcher_invocations self = 0 \<and>
     metadata self = md \<and>
     breakdown_list (waymo self) = get_breakdown_names_from_config ext (waymo_metric_config self)"
  by (auto simp: WaymoAPMetrics_init_def split: sum.splits)

lemma example_init:
  "WaymoAPMetrics_init example_ext (example_metadata 3)
     (map_of (IoUThresholds (example_metadata 3))) ''3d'' [''RANGE''] = Inr example_fresh"
proof -
  have "BuildWaymoMetricConfig (GeneratorId_Value example_ext) (example_metadata 3) ''3d''
          [''RANGE''] = Inr example_config"
    by (simp add: example_ext_def build_example example_config_def)
  then show ?thesis
    by (simp add: WaymoAPMetrics_init_def example_fresh_def example_ext_def)
qed

lemma run_calls_Cons:
  "\<exists>res. (res = None \<longrightarrow> snd (EvaluateIfNecessary ext s) = None) \<and>
     run_calls ext s (c # rest) =
       (case res of
          Some e \<Rightarrow> (fst (EvaluateIfNecessary ext s), Some e)
        | None \<Rightarrow> run_calls ext (fst (EvaluateIfNecessary ext s)) rest)"
proof (cases c)
  case CallValue
  obtain s1 r where v: "WaymoAPMetrics_value ext (EvaluateIfNecessary ext) s = (s1, r)"
    by (cases "WaymoAPMetrics_value ext (EvaluateIfNecessary ext) s")
  with value_state [of ext s] have s1: "s1 = fst (EvaluateIfNecessary ext s)" by simp
  show ?thesis
  proof (cases r)
    case (Inl e)
    with v s1 CallValue show ?thesis by (intro exI [of _ "Some e"]) simp
  next
    case (Inr x)
    with v value_returns [of ext s s1 x] have "snd (EvaluateIfNecessary ext s) = None" by simp
    with Inr v s1 CallValue show ?thesis by (intro exI [of _ None]) simp
  qed
next
  case (CallSummary name)
  obtain s1 r where v: "Summary ext (EvaluateIfNecessary ext) s name = (s1, r)"
    by (cases "Summary ext (EvaluateIfNecessary ext) s name")
  with Summary_state [of ext s name] have s1: "s1 = fst (EvaluateIfNecessary ext s)" by simp
  show ?thesis
  proof (cases r)
    case (Inl e)
    with v s1 CallSummary show ?thesis by (intro exI [of _ "Some e"]) simp
  next
    case (Inr x)
    with v Summary_returns [of ext s name s1 x] have "snd (EvaluateIfNecessary ext s) = None"
      by simp
    with Inr v s1 CallSummary show ?thesis by (intro exI [of _ None]) simp
  qed
qed

lemma run_calls_invariant:
  assumes "(populated s \<and> evaluation_passes s = 1 \<and> matcher_invocations s \<le> N) \<or>
           (\<not> populated s \<and> evaluation_passes s = 0 \<and> matcher_invocations s = 0)"
    and "length (EvalClassIndices (metadata s)) = N"
  shows "evaluation_passes (fst (run_calls ext s calls)) \<le> 1 \<and>
         matcher_invocations (fst (run_calls ext s calls)) \<le> N \<and>
         (snd (run_calls ext s calls) = None \<longrightarrow> calls \<noteq> [] \<longrightarrow>
            populated (fst (run_calls ext s calls)) \<and>
            evaluation_passes (fst (run_calls ext s calls)) = 1)"
  using assms
proof (induction calls arbitrary: s)
  case Nil
  then show ?case by auto
next
  case (Cons c rest)
  obtain s1 r where ev: "EvaluateIfNecessary ext s = (s1, r)"
    by (cases "EvaluateIfNecessary ext s")
  have s1: "evaluation_passes s1 = 1 \<and> matcher_invocations s1 \<le> N \<and>
            length (EvalClassIndices (metadata s1)) = N \<and> (r = None \<longrightarrow> populated s1)"
  proof (cases "populated s")
    case True
    with ev EvaluateIfNecessary_populated [of s ext] Cons.prems show ?thesis by auto
  next
    case False
    from EvaluateIfNecessary_pass [OF False ev] False Cons.prems show ?thesis by auto
  qed
  from run_calls_Cons [of ext s c rest] obtain res where
    A: "(res = None \<longrightarrow> snd (EvaluateIfNecessary ext s) = None) \<and>
     run_calls ext s (c # rest) =
       (case res of
          Some e \<Rightarrow> (fst (EvaluateIfNecessary ext s), Some e)
        | None \<Rightarrow> run_calls ext (fst (EvaluateIfNecessary ext s)) rest)"
    by (elim exE)
  from ev have fs: "fst (EvaluateIfNecessary ext s) = s1"
    and sn: "snd (EvaluateIfNecessary ext s) = r"
    by simp_all
  from A [unfolded fs sn] have res: "res = None \<longrightarrow> r = None"
    and run: "run_calls ext s (c # rest) =
       (case res of Some e \<Rightarrow> (s1, Some e) | None \<Rightarrow> run_calls ext s1 rest)"
    by (rule conjunct1, rule conjunct2)
  show ?case
  proof (cases res)
    case (Some e)
    with run s1 show ?thesis by simp
  next
    case None
    with res s1 have inv: "(populated s1 \<and> evaluation_passes s1 = 1 \<and> matcher_invocations s1 \<le> N) \<or>
           (\<not> populated s1 \<and> evaluation_passes s1 = 0 \<and> matcher_invocations s1 = 0)"
      and len: "length (EvalClassIndices (metadata s1)) = N"
      and p: "populated s1" "evaluation_passes s1 = 1"
      by simp_all
    from None run have eq: "run_calls ext s (c # rest) = run_calls ext s1 rest" by simp
    show ?thesis
    proof (cases rest)
      case Nil
      with eq p s1 show ?thesis by simp
    next
      case (Cons c' rest')
      with Cons.IH [OF inv len] eq show ?thesis by simp
    qed
  qed
qed

text \<open>
  Claim C9. On a metric object as its constructor returns it, across any sequence of
  calls to the \<open>value\<close> property and to \<open>Summary\<close> (a sequence ends at the first
  exception), the per-class evaluation pass is started at most once and the metric op is
  invoked at most once per eval class. A sequence with at least one call that ends without an exception
  has run the pass exactly once and left the object populated, and every trigger on a
  populated object is a no-op that returns the object unchanged.
\<close>

theorem evaluation_pass_at_most_once:
  assumes "WaymoAPMetrics_init ext md iou_by_class bt wb = Inr self"
  shows "evaluation_passes (fst (run_calls ext self calls)) \<le> 1 \<and>
         matcher_invocations (fst (run_calls ext self calls))
           \<le> length (EvalClassIndices md) \<and>
         (snd (run_calls ext self calls) = None \<longrightarrow> calls \<noteq> [] \<longrightarrow>
            populated (fst (run_calls ext self calls)) \<and>
            evaluation_passes (fst (run_calls ext self calls)) = 1) \<and>
         (\<forall>s. populated s \<longrightarrow> EvaluateIfNecessary ext s = (s, None))"
proof -
  from init_fresh [OF assms]
  have "(populated self \<and> evaluation_passes self = 1 \<and>
       matcher_invocations self \<le> length (EvalClassIndices md)) \<or>
     (\<not> populated self \<and> evaluation_passes self = 0 \<and> matcher_invocations self = 0)"
    and "length (EvalClassIndices (metadata self)) = length (EvalClassIndices md)"
    by simp_all
  from run_calls_invariant [OF this, of ext calls] EvaluateIfNecessary_populated [of _ ext]
  show ?thesis by simp
qed

lemma example_run:
  "(case run_calls example_ext example_fresh [CallValue, CallSummary ''eval'', CallValue] of
      (s, r) \<Rightarrow> (populated s, evaluation_passes s, matcher_invocations s, r))
   = (True, 1, 1, None)"
  by code_simp

theorem evaluation_pass_at_most_once_witness:
  "WaymoAPMetrics_init example_ext (example_metadata 3)
     (map_of (IoUThresholds (example_metadata 3))) ''3d'' [''RANGE''] = Inr example_fresh \<and>
   snd (run_calls example_ext example_fresh [CallValue, CallSummary ''eval'', CallValue]) = None \<and>
   populated (fst (run_calls example_ext example_fresh
      [CallValue, CallSummary ''eval'', CallValue])) \<and>
   evaluation_passes (fst (run_calls example_ext example_fresh
      [CallValue, CallSummary ''eval'', CallValue])) = 1 \<and>
   matcher_invocations (fst (run_calls example_ext example_fresh
      [CallValue, CallSummary ''eval'', CallValue])) = 1"
proof -
  obtain s r where eq:
    "run_calls example_ext example_fresh [CallValue, CallSummary ''eval'', CallValue] = (s, r)"
    by (cases "run_calls example_ext example_fresh [CallValue, CallSummary ''eval'', CallValue]")
  from example_run [unfolded eq] have v: "matcher_invocations s = 1" "r = None"
    by simp_all
  from evaluation_pass_at_most_once [OF example_init, of
      "[CallValue, CallSummary ''eval'', CallValue]", unfolded eq] v
  have "populated s" "evaluation_passes s = 1" by simp_all
  with example_init v show ?thesis unfolding eq by simp
qed

end
